theory Spec2Isabelle
  imports Complex_Main
begin

section \<open>JavaScript values read and written by the plugin\<close>

text \<open>
  Values of \<^verbatim>\<open>src/plugin.js\<close>: what \<^verbatim>\<open>JSON.parse\<close> returns, what a property read
  returns, and the two host objects the plugin passes around (an \<^verbatim>\<open>Error\<close> built
  around a value, and the player). An object is its list of properties.
\<close>

datatype jsval =
    JUndefined
  | JNull
  | JBool bool
  | JNum real
  | JStr string
  | JArr "jsval list"
  | JObj "(string \<times> jsval) list"
  | JErr jsval
  | JPlayer

text \<open>A user-supplied number can also be \<^verbatim>\<open>NaN\<close>.\<close>

datatype jsnum = NaN | Num real

text \<open>ToBoolean, as used by \<^verbatim>\<open>if (x)\<close>, \<^verbatim>\<open>!x\<close>, \<^verbatim>\<open>x && y\<close> and \<^verbatim>\<open>x || y\<close>.\<close>

fun truthy :: "jsval \<Rightarrow> bool" where
  "truthy JUndefined = False"
| "truthy JNull = False"
| "truthy (JBool b) = b"
| "truthy (JNum r) = (r \<noteq> 0)"
| "truthy (JStr s) = (s \<noteq> [])"
| "truthy (JArr vs) = True"
| "truthy (JObj kvs) = True"
| "truthy (JErr v) = True"
| "truthy JPlayer = True"

definition js_or :: "jsval \<Rightarrow> jsval \<Rightarrow> jsval" where
  "js_or a b = (if truthy a then a else b)"

text \<open>
  The property reads of the plugin (\<^verbatim>\<open>.success\<close>, \<^verbatim>\<open>.player\<close>, \<^verbatim>\<open>.token\<close>,
  \<^verbatim>\<open>.position\<close>): the stored value on an object, \<^verbatim>\<open>undefined\<close> on anything else.
  The source reads them only from a value it has found truthy.
\<close>

fun get_prop :: "jsval \<Rightarrow> string \<Rightarrow> jsval" where
  "get_prop (JObj kvs) k = (case map_of kvs k of Some v \<Rightarrow> v | None \<Rightarrow> JUndefined)"
| "get_prop v k = JUndefined"

section \<open>Options\<close>

text \<open>
  The options object after \<^verbatim>\<open>videojs.mergeOptions(defaults, useroptions)\<close>. \<open>None\<close> is
  \<^verbatim>\<open>null\<close>.
\<close>

record options =
  interval :: "jsnum option"
  accessurl :: "string option"
  updateurl :: "string option"
  disposeurl :: "string option"
  playerID :: jsval
  startPosition :: real
  maxUpdateFails :: int
  requestTimeoutInMillis :: nat

definition defaults :: options where
  "defaults = \<lparr> interval = Some (Num 10), accessurl = None, updateurl = None,
     disposeurl = None, playerID = JNull, startPosition = 0, maxUpdateFails = 1,
     requestTimeoutInMillis = 15 * 1000 \<rparr>"

text \<open>What the caller passes: every key may be absent (\<open>None\<close>).\<close>

record useroptions =
  u_interval :: "jsnum option option"
  u_accessurl :: "string option option"
  u_updateurl :: "string option option"
  u_disposeurl :: "string option option"
  u_playerID :: "jsval option"
  u_startPosition :: "real option"
  u_maxUpdateFails :: "int option"
  u_requestTimeoutInMillis :: "nat option"

text \<open>
  \<^verbatim>\<open>videojs.mergeOptions\<close> on flat objects: a key the caller supplies replaces the
  default, an absent key keeps it.
\<close>

definition mergeOptions :: "options \<Rightarrow> useroptions \<Rightarrow> options" where
  "mergeOptions d u = \<lparr>
     interval = (case u_interval u of Some v \<Rightarrow> v | None \<Rightarrow> interval d),
     accessurl = (case u_accessurl u of Some v \<Rightarrow> v | None \<Rightarrow> accessurl d),
     updateurl = (case u_updateurl u of Some v \<Rightarrow> v | None \<Rightarrow> updateurl d),
     disposeurl = (case u_disposeurl u of Some v \<Rightarrow> v | None \<Rightarrow> disposeurl d),
     playerID = (case u_playerID u of Some v \<Rightarrow> v | None \<Rightarrow> playerID d),
     startPosition = (case u_startPosition u of Some v \<Rightarrow> v | None \<Rightarrow> startPosition d),
     maxUpdateFails = (case u_maxUpdateFails u of Some v \<Rightarrow> v | None \<Rightarrow> maxUpdateFails d),
     requestTimeoutInMillis =
       (case u_requestTimeoutInMillis u of Some v \<Rightarrow> v | None \<Rightarrow> requestTimeoutInMillis d) \<rparr>"

text \<open>\<^verbatim>\<open>!options.accessurl\<close>: \<^verbatim>\<open>null\<close> and the empty string are falsy.\<close>

definition url_truthy :: "string option \<Rightarrow> bool" where
  "url_truthy u = (case u of None \<Rightarrow> False | Some s \<Rightarrow> s \<noteq> [])"

text \<open>\<^verbatim>\<open>!options.interval\<close>: \<^verbatim>\<open>null\<close>, \<^verbatim>\<open>NaN\<close> and 0 are falsy.\<close>

definition interval_truthy :: "jsnum option \<Rightarrow> bool" where
  "interval_truthy i = (case i of None \<Rightarrow> False | Some NaN \<Rightarrow> False | Some (Num r) \<Rightarrow> r \<noteq> 0)"

text \<open>\<^verbatim>\<open>options.interval < 5\<close>: \<^verbatim>\<open>null\<close> converts to 0, a comparison with \<^verbatim>\<open>NaN\<close> is false.\<close>

definition interval_lt :: "jsnum option \<Rightarrow> real \<Rightarrow> bool" where
  "interval_lt i b = (case i of None \<Rightarrow> 0 < b | Some NaN \<Rightarrow> False | Some (Num r) \<Rightarrow> r < b)"

text \<open>\<^verbatim>\<open>options.interval * 1000\<close>.\<close>

definition interval_millis :: "jsnum option \<Rightarrow> jsnum" where
  "interval_millis i = (case i of None \<Rightarrow> Num 0 | Some NaN \<Rightarrow> NaN | Some (Num r) \<Rightarrow> Num (r * 1000))"

section \<open>ConcurrentViewIdMaker\<close>

text \<open>
  \<^verbatim>\<open>Math.random()\<close> returns a double in [0, 1), here the pair \<open>(m, k)\<close> for
  \<open>m / 2 ^ k\<close> with \<open>m < 2 ^ k\<close>. \<^verbatim>\<open>Number.prototype.toString(radix)\<close> writes
  \<^verbatim>\<open>0\<close> for zero and otherwise \<^verbatim>\<open>0.\<close> followed by the digits of the fraction, which
  stop when the remaining fraction is zero; at most \<open>k\<close> digits are produced, which is
  the whole expansion for every even radix.
\<close>

definition radix_digit :: "nat \<Rightarrow> char" where
  "radix_digit d = ''0123456789abcdefghijklmnopqrstuvwxyz'' ! d"

fun frac_digits :: "nat \<Rightarrow> nat \<Rightarrow> nat \<Rightarrow> nat \<Rightarrow> string" where
  "frac_digits 0 radix m k = []"
| "frac_digits (Suc n) radix m k =
     (if m = 0 then []
      else radix_digit ((m * radix) div 2 ^ k) # frac_digits n radix ((m * radix) mod 2 ^ k) k)"

definition toString_radix :: "nat \<Rightarrow> nat \<times> nat \<Rightarrow> string" where
  "toString_radix radix r =
     (case r of (m, k) \<Rightarrow> if m = 0 then ''0'' else ''0.'' @ frac_digits k radix m k)"

datatype error = RangeError

text \<open>
  \<^verbatim>\<open>Math.random().toString((len || 30) + 2).substr(2)\<close>. The engine raises RangeError
  for a radix above 36.
\<close>

definition generateRandom :: "nat option \<Rightarrow> nat \<times> nat \<Rightarrow> error + string" where
  "generateRandom len r =
     (let radix = (case len of None \<Rightarrow> 30 | Some l \<Rightarrow> if l \<noteq> 0 then l else 30) + 2
      in if 36 < radix then Inl RangeError else Inr (drop 2 (toString_radix radix r)))"

text \<open>Both callers pass no \<^verbatim>\<open>len\<close>, so the radix is 32 and nothing is raised.\<close>

definition generateRandom0 :: "nat \<times> nat \<Rightarrow> string" where
  "generateRandom0 r = (case generateRandom None r of Inr s \<Rightarrow> s | Inl e \<Rightarrow> [])"

section \<open>The host, the plugin object and the watchdog closure\<close>

datatype req_kind = Validate | Update | Release

datatype player_event =
    AvPlayerCanPlay
  | AvPlayerBloked jsval jsval jsval
  | AvPlayerUpdate jsval

text \<open>
  What the plugin does to its collaborators, in the order it does it.
  \<open>Request kind url body timeout\<close> is one \<^verbatim>\<open>videojs.xhr\<close> POST issued by
  \<^verbatim>\<open>makeRequest\<close>; \<open>kind\<close> names the callback it was given (that of
  \<^verbatim>\<open>validatePlay\<close>, of \<^verbatim>\<open>wdf\<close>, or the empty one of \<^verbatim>\<open>cleanUp\<close>).
  \<open>AvPlayerBloked code reason error\<close> is the \<^verbatim>\<open>avplayerbloked\<close> event.
\<close>

datatype effect =
    Log string
  | AddClass string
  | StorageSet string string
  | Request req_kind "string option" jsval nat
  | Trigger player_event
  | Pause
  | Dispose
  | SetInterval jsnum nat
  | ClearInterval nat
  | Throw string

text \<open>The variable \<^verbatim>\<open>watchdog\<close>: \<^verbatim>\<open>null\<close>, the handle of the interval, or \<^verbatim>\<open>false\<close>.\<close>

datatype wd = WdNull | WdHandle nat | WdFalse

text \<open>A handle is a number, truthy when it is not 0.\<close>

fun wd_truthy :: "wd \<Rightarrow> bool" where
  "wd_truthy WdNull = False"
| "wd_truthy (WdHandle h) = (h \<noteq> 0)"
| "wd_truthy WdFalse = False"

text \<open>The local variables of \<^verbatim>\<open>makeWatchdog\<close> that its closures share.\<close>

record closure =
  wd_options :: options
  watchdog :: wd
  lasTime :: real
  playerToken :: jsval
  cur_playerID :: jsval
  loadedmetadata :: bool
  pendingRequest :: bool
  failedRequest :: nat

text \<open>
  The host as the plugin sees it, the plugin object, and the closure once
  \<^verbatim>\<open>makeWatchdog\<close> has run.
  \<^item> \<open>paused\<close>: what \<^verbatim>\<open>player.paused()\<close> returns;
  \<^item> \<open>playbackPosition\<close>: the position of the media, which \<^verbatim>\<open>player.currentTime()\<close>
    returns while \<^verbatim>\<open>currentTime\<close> is still the player's method;
  \<^item> \<open>currentTimeProp\<close>: the value assigned over \<^verbatim>\<open>player.currentTime\<close>, if any;
  \<^item> \<open>timerHandle\<close>: what \<^verbatim>\<open>player.setInterval\<close> will return;
  \<^item> \<open>sessionStorage\<close>: \<open>None\<close> without \<^verbatim>\<open>window.sessionStorage\<close>, else the item
    stored under \<^verbatim>\<open>vcl-player-id\<close>;
  \<^item> \<open>mathRandom\<close>: what \<^verbatim>\<open>Math.random()\<close> will return;
  \<^item> \<open>validating\<close>: the validate request awaits its callback;
  \<^item> \<open>inflight\<close>: the number of update requests awaiting their callback;
  \<^item> \<open>cvPlugin\<close>: the options of \<^verbatim>\<open>player._cvPlugin\<close>, once constructed;
  \<^item> \<open>fistSent\<close>, \<open>pluginCurrentTime\<close>: the properties \<^verbatim>\<open>this.fistSent\<close> and
    \<^verbatim>\<open>this.currentTime\<close> of the plugin object;
  \<^item> \<open>recovering\<close>: the position held by the \<^verbatim>\<open>loadedmetadata\<close> handler of
    \<^verbatim>\<open>recoverStatus\<close>, once registered;
  \<^item> \<open>session\<close>: the closure of \<^verbatim>\<open>makeWatchdog\<close>, once it has run (its handlers are
    registered from then on).
\<close>

record world =
  paused :: bool
  playbackPosition :: real
  currentTimeProp :: "jsval option"
  timerHandle :: nat
  sessionStorage :: "string option option"
  mathRandom :: "nat \<times> nat"
  validating :: bool
  inflight :: nat
  cvPlugin :: "options option"
  fistSent :: bool
  pluginCurrentTime :: "jsval option"
  recovering :: "jsval option"
  session :: "closure option"
  trace :: "effect list"

definition emit :: "effect \<Rightarrow> world \<Rightarrow> world" where
  "emit e w = w\<lparr>trace := trace w @ [e]\<rparr>"

text \<open>The item read from the storage, or the string returned: \<^verbatim>\<open>null\<close> and \<^verbatim>\<open>''\<close> are falsy.\<close>

definition str_truthy :: "string option \<Rightarrow> bool" where
  "str_truthy i = (case i of None \<Rightarrow> False | Some s \<Rightarrow> s \<noteq> [])"

definition generateBySessionStorage :: "world \<Rightarrow> string option \<times> world" where
  "generateBySessionStorage w =
     (case sessionStorage w of
        None \<Rightarrow> (None, w)
      | Some item \<Rightarrow>
          if \<not> str_truthy item then
            (let sid = ''ssi-'' @ generateRandom0 (mathRandom w)
             in (Some sid, emit (StorageSet ''vcl-player-id'' sid)
                            (w\<lparr>sessionStorage := Some (Some sid)\<rparr>)))
          else (item, w))"

definition generate :: "options \<Rightarrow> world \<Rightarrow> jsval \<times> world" where
  "generate opts w =
     (if truthy (playerID opts) then (playerID opts, w)
      else (case generateBySessionStorage w of
              (r, w') \<Rightarrow>
                (case r of
                   Some sid \<Rightarrow>
                     if sid \<noteq> [] then (JStr sid, w')
                     else (JStr (''rdm-'' @ generateRandom0 (mathRandom w')), w')
                 | None \<Rightarrow> (JStr (''rdm-'' @ generateRandom0 (mathRandom w')), w'))))"

section \<open>ConcurrentViewPlugin\<close>

text \<open>
  \<^verbatim>\<open>makeRequest(url, data, cb)\<close> of the plugin object \<open>this\<close> (its options): one POST,
  whose callback is owed from now on.
\<close>

definition makeRequest :: "options \<Rightarrow> string option \<Rightarrow> jsval \<Rightarrow> req_kind \<Rightarrow> world \<Rightarrow> world" where
  "makeRequest this url data cb w =
     (let w' = emit (Request cb url (if truthy data then data else JObj [])
                       (requestTimeoutInMillis this)) w
      in case cb of
           Validate \<Rightarrow> w'\<lparr>validating := True\<rparr>
         | Update \<Rightarrow> w'\<lparr>inflight := Suc (inflight w')\<rparr>
         | Release \<Rightarrow> w')"

text \<open>
  What \<^verbatim>\<open>videojs.xhr\<close> hands to the wrapper inside \<^verbatim>\<open>makeRequest\<close>: \<^verbatim>\<open>err\<close> (\<open>None\<close>
  for \<^verbatim>\<open>null\<close>, else an Error with that message) and the body: falsy, text on which
  \<^verbatim>\<open>JSON.parse\<close> throws, or text that parses to a value.
\<close>

datatype body = EmptyBody | Malformed | Parsed jsval

text \<open>\<^verbatim>\<open>body ? JSON.parse(body) : {error: 'invalid body', body}\<close>, \<^verbatim>\<open>null\<close> on a throw.\<close>

definition bodyJson :: "body \<Rightarrow> jsval" where
  "bodyJson b =
     (case b of
        EmptyBody \<Rightarrow> JObj [(''error'', JStr ''invalid body''), (''body'', JStr [])]
      | Malformed \<Rightarrow> JNull
      | Parsed v \<Rightarrow> v)"

text \<open>\<^verbatim>\<open>err ? err.message || err : null\<close>.\<close>

definition cb_error :: "string option \<Rightarrow> jsval" where
  "cb_error err = (case err of None \<Rightarrow> JNull | Some msg \<Rightarrow> js_or (JStr msg) (JErr (JStr msg)))"

text \<open>
  \<^verbatim>\<open>cleanUp\<close>, the handler of the player's \<^verbatim>\<open>dispose\<close> and of the window's
  \<^verbatim>\<open>beforeunload\<close>; it exists once \<^verbatim>\<open>makeWatchdog\<close> has run.
\<close>

definition cleanUp :: "world \<Rightarrow> world" where
  "cleanUp w =
     (case session w of
        None \<Rightarrow> w
      | Some c \<Rightarrow>
          (let w1 = emit (Log ''concurrenceview: DISPOSE'') w
           in case watchdog c of
                WdHandle h \<Rightarrow>
                  if h \<noteq> 0 then
                    makeRequest (wd_options c) (disposeurl (wd_options c))
                      (JObj [(''player'', cur_playerID c), (''position'', JNum (lasTime c)),
                             (''token'', playerToken c), (''status'', JStr ''paused'')])
                      Release
                      ((emit (ClearInterval h) w1)\<lparr>session := Some (c\<lparr>watchdog := WdFalse\<rparr>)\<rparr>)
                  else w1
              | WdNull \<Rightarrow> w1
              | WdFalse \<Rightarrow> w1))"

definition player_pause :: "world \<Rightarrow> world" where
  "player_pause w = (emit Pause w)\<lparr>paused := True\<rparr>"

text \<open>
  \<^verbatim>\<open>player.dispose()\<close> fires the player's \<^verbatim>\<open>dispose\<close> event before it returns, so
  the handler registered by \<^verbatim>\<open>makeWatchdog\<close> runs inside the call.
\<close>

definition player_dispose :: "world \<Rightarrow> world" where
  "player_dispose w = cleanUp (emit Dispose w)"

definition blockPlayer :: "jsval \<Rightarrow> jsval \<Rightarrow> jsval \<Rightarrow> world \<Rightarrow> world" where
  "blockPlayer code error reason w =
     (let code' = js_or code (JStr ''error'');
          reason' = js_or reason (JStr ''Has alcanzado la cantidad maxima de players activos.'');
          w1 = emit (Log ''concurrenceview: stop player - '') w;
          w2 = emit (Trigger (AvPlayerBloked code' reason' error)) w1
      in player_dispose (player_pause w2))"

text \<open>
  \<^verbatim>\<open>recoverStatus\<close>: the assignment \<^verbatim>\<open>this.player.currentTime = info.position\<close>
  replaces the property \<^verbatim>\<open>currentTime\<close> of the player; the handler it registers
  assigns \<^verbatim>\<open>this.currentTime\<close>, where \<^verbatim>\<open>this\<close> of the arrow function is the plugin
  object.
\<close>

definition recoverStatus :: "jsval \<Rightarrow> world \<Rightarrow> world" where
  "recoverStatus info w =
     (if \<not> truthy (get_prop info ''position'') then w
      else w\<lparr>currentTimeProp := Some (get_prop info ''position''),
             recovering := Some (get_prop info ''position'')\<rparr>)"

definition on_loadedmetadata :: "world \<Rightarrow> world" where
  "on_loadedmetadata w =
     (let w1 = (case recovering w of None \<Rightarrow> w | Some p \<Rightarrow> w\<lparr>pluginCurrentTime := Some p\<rparr>)
      in case session w1 of
           None \<Rightarrow> w1
         | Some c \<Rightarrow> w1\<lparr>session := Some (c\<lparr>loadedmetadata := True\<rparr>)\<rparr>)"

text \<open>
  The \<^verbatim>\<open>timeupdate\<close> handler. \<^verbatim>\<open>player.currentTime()\<close> is a call of a non-function
  once \<^verbatim>\<open>recoverStatus\<close> has assigned the property, and throws.
\<close>

definition on_timeupdate :: "world \<Rightarrow> world" where
  "on_timeupdate w =
     (case session w of
        None \<Rightarrow> w
      | Some c \<Rightarrow>
          if \<not> loadedmetadata c \<or> \<not> fistSent w then w\<lparr>fistSent := True\<rparr>
          else (case currentTimeProp w of
                  Some v \<Rightarrow> emit (Throw ''TypeError'') w
                | None \<Rightarrow>
                    w\<lparr>session := Some (c\<lparr>lasTime :=
                         of_int (round (if playbackPosition w \<noteq> 0 then playbackPosition w else 0))\<rparr>)\<rparr>))"

text \<open>\<^verbatim>\<open>wdf\<close>, the function the interval calls.\<close>

definition wdf :: "world \<Rightarrow> world" where
  "wdf w =
     (case session w of
        None \<Rightarrow> w
      | Some c \<Rightarrow>
          (let w1 = emit (Trigger (AvPlayerUpdate (cur_playerID c))) w
           in if pendingRequest c then w1
              else makeRequest (wd_options c) (updateurl (wd_options c))
                     (JObj [(''player'', cur_playerID c), (''token'', playerToken c),
                            (''position'', JNum (lasTime c)),
                            (''status'', JStr (if paused w1 then ''paused'' else ''playing''))])
                     Update
                     (w1\<lparr>session := Some (c\<lparr>pendingRequest := True\<rparr>)\<rparr>)))"

text \<open>The callback \<^verbatim>\<open>(error, response) => ...\<close> that \<^verbatim>\<open>wdf\<close> passes to \<^verbatim>\<open>makeRequest\<close>.\<close>

definition wdf_callback :: "jsval \<Rightarrow> jsval \<Rightarrow> world \<Rightarrow> world" where
  "wdf_callback error response w =
     (case session w of
        None \<Rightarrow> w
      | Some c0 \<Rightarrow>
          (let c = c0\<lparr>pendingRequest := False\<rparr>
           in if truthy error then
                (let w1 = (if int (failedRequest c) \<ge> maxUpdateFails (wd_options c) then
                             blockPlayer JPlayer (JStr ''authapifail'')
                               (JObj [(''msg'', error)])
                               (emit (Log ''concurrenceview: update api error'')
                                  (w\<lparr>session := Some c\<rparr>))
                           else w\<lparr>session := Some c\<rparr>)
                 in case session w1 of
                      None \<Rightarrow> w1
                    | Some c1 \<Rightarrow> w1\<lparr>session := Some (c1\<lparr>failedRequest := Suc (failedRequest c1)\<rparr>)\<rparr>)
              else
                (let c' = c\<lparr>failedRequest := 0\<rparr>
                 in if truthy response \<and> truthy (get_prop response ''success'') then
                      w\<lparr>session := Some (c'\<lparr>
                           cur_playerID := js_or (get_prop response ''player'') (cur_playerID c'),
                           playerToken := js_or (get_prop response ''token'') (playerToken c')\<rparr>)\<rparr>
                    else blockPlayer JPlayer (JStr ''noauth'') response
                           (emit (Log ''Player Auth error'') (w\<lparr>session := Some c'\<rparr>)))))"

text \<open>\<^verbatim>\<open>makeWatchdog(ok)\<close> of the plugin object \<open>this\<close>.\<close>

definition makeWatchdog :: "options \<Rightarrow> jsval \<Rightarrow> world \<Rightarrow> world" where
  "makeWatchdog this ok w =
     (let c = \<lparr> wd_options = this, watchdog = WdNull,
                lasTime = (if startPosition this \<noteq> 0 then startPosition this else 0),
                playerToken = JNull, cur_playerID = playerID this, loadedmetadata = False,
                pendingRequest = False, failedRequest = 0 \<rparr>;
          w1 = emit (Log ''concurrence plugin: ok'') (w\<lparr>session := Some c\<rparr>)
      in if \<not> wd_truthy (watchdog c) then
           wdf ((emit (SetInterval (interval_millis (interval this)) (timerHandle w1)) w1)
                  \<lparr>session := Some (c\<lparr>watchdog := WdHandle (timerHandle w1)\<rparr>)\<rparr>)
         else w1)"

text \<open>The callback that \<^verbatim>\<open>onPlayerReady\<close> passes to \<^verbatim>\<open>validatePlay\<close>.\<close>

definition onValidated :: "options \<Rightarrow> jsval \<Rightarrow> jsval \<Rightarrow> world \<Rightarrow> world" where
  "onValidated this error ok w =
     (if truthy error then
        blockPlayer (JStr ''cantplay'') error JUndefined (emit (Log ''concurrenceview: error'') w)
      else makeWatchdog this ok (recoverStatus ok w))"

text \<open>The callback \<^verbatim>\<open>(error, ok) => ...\<close> that \<^verbatim>\<open>validatePlay\<close> passes to \<^verbatim>\<open>makeRequest\<close>.\<close>

definition validatePlay_callback :: "options \<Rightarrow> jsval \<Rightarrow> jsval \<Rightarrow> world \<Rightarrow> world" where
  "validatePlay_callback this error ok w =
     (if truthy error then
        onValidated this (JErr error) JNull (emit (Log ''concurrenceview: canplay api error'') w)
      else if truthy ok \<and> truthy (get_prop ok ''success'') then
        emit (Trigger AvPlayerCanPlay) (onValidated this JNull ok w)
      else onValidated this (JErr (JStr ''Player Auth error'')) JNull w)"

definition validatePlay :: "options \<Rightarrow> world \<Rightarrow> world" where
  "validatePlay this w =
     makeRequest this (accessurl this) (JObj [(''player'', playerID this)]) Validate w"

section \<open>Initialisation\<close>

definition onPlayerReady :: "options \<Rightarrow> world \<Rightarrow> world" where
  "onPlayerReady opts w =
     (case generate opts (emit (AddClass ''vjs-concurrence-limiter'') w) of
        (pid, w') \<Rightarrow>
          (let this = opts\<lparr>playerID := pid\<rparr>
           in validatePlay this (w'\<lparr>cvPlugin := Some this\<rparr>)))"

text \<open>The function \<^verbatim>\<open>concurrenceLimiter\<close> passes to \<^verbatim>\<open>this.ready\<close>.\<close>

definition concurrenceLimiter :: "useroptions \<Rightarrow> world \<Rightarrow> world" where
  "concurrenceLimiter u w =
     (let opts = mergeOptions defaults u;
          w1 = emit (Log ''concurrenceview plugin'') w
      in if \<not> url_truthy (accessurl opts) \<or> \<not> url_truthy (updateurl opts)
            \<or> \<not> url_truthy (disposeurl opts) then
           emit (Log ''concurrenceview: invalid urls'') w1
         else if \<not> interval_truthy (interval opts) \<or> interval_lt (interval opts) 5 then
           emit (Log ''concurrenceview: invalid options'') w1
         else onPlayerReady opts w1)"

section \<open>Events of the host\<close>

text \<open>
  What can happen after initialisation: the callback of the validate request, a firing
  of the interval, the callback of an update request, the player's \<^verbatim>\<open>loadedmetadata\<close>,
  \<^verbatim>\<open>timeupdate\<close> (at the given position of the media) and \<^verbatim>\<open>dispose\<close> events, the
  window's \<^verbatim>\<open>beforeunload\<close>, and the viewer starting or pausing playback. A callback
  runs only for a request that awaits it.
\<close>

datatype event =
    ValidateResponse "string option" body
  | Tick
  | UpdateResponse "string option" body
  | LoadedMetadata
  | TimeUpdate real
  | DisposeEvent
  | BeforeUnload
  | PlayEvent
  | PauseEvent

fun step :: "world \<Rightarrow> event \<Rightarrow> world" where
  "step w (ValidateResponse err b) =
     (if validating w then
        (case cvPlugin w of
           None \<Rightarrow> w
         | Some this \<Rightarrow>
             validatePlay_callback this (cb_error err) (bodyJson b) (w\<lparr>validating := False\<rparr>))
      else w)"
| "step w Tick = wdf w"
| "step w (UpdateResponse err b) =
     (if 0 < inflight w then
        wdf_callback (cb_error err) (bodyJson b) (w\<lparr>inflight := inflight w - 1\<rparr>)
      else w)"
| "step w LoadedMetadata = on_loadedmetadata w"
| "step w (TimeUpdate t) = on_timeupdate (w\<lparr>playbackPosition := t\<rparr>)"
| "step w DisposeEvent = cleanUp w"
| "step w BeforeUnload = cleanUp w"
| "step w PlayEvent = w\<lparr>paused := False\<rparr>"
| "step w PauseEvent = w\<lparr>paused := True\<rparr>"

definition run :: "world \<Rightarrow> event list \<Rightarrow> world" where
  "run w evs = foldl step w evs"

text \<open>The host before the plugin is invoked.\<close>

definition fresh :: "bool \<Rightarrow> nat \<Rightarrow> string option option \<Rightarrow> nat \<times> nat \<Rightarrow> world" where
  "fresh p h st r = \<lparr> paused = p, playbackPosition = 0, currentTimeProp = None,
     timerHandle = h, sessionStorage = st, mathRandom = r, validating = False, inflight = 0,
     cvPlugin = None, fistSent = False, pluginCurrentTime = None, recovering = None,
     session = None, trace = [] \<rparr>"

section \<open>Observing a run\<close>

text \<open>Kinds of effects, and the effects added between two states of one run.\<close>

fun is_request :: "effect \<Rightarrow> bool" where
  "is_request (Request cb url data t) = True"
| "is_request e = False"

fun is_update :: "effect \<Rightarrow> bool" where
  "is_update (Request Update url data t) = True"
| "is_update e = False"

fun is_release :: "effect \<Rightarrow> bool" where
  "is_release (Request Release url data t) = True"
| "is_release e = False"

fun is_block :: "effect \<Rightarrow> bool" where
  "is_block (Trigger (AvPlayerBloked c r e)) = True"
| "is_block e = False"

fun is_heartbeat :: "effect \<Rightarrow> bool" where
  "is_heartbeat (Trigger (AvPlayerUpdate p)) = True"
| "is_heartbeat e = False"

fun is_set_interval :: "effect \<Rightarrow> bool" where
  "is_set_interval (SetInterval ms h) = True"
| "is_set_interval e = False"

definition since :: "world \<Rightarrow> world \<Rightarrow> effect list" where
  "since w w' = drop (length (trace w)) (trace w')"

text \<open>No callback is owed and \<^verbatim>\<open>makeWatchdog\<close> has not run.\<close>

definition idle :: "world \<Rightarrow> bool" where
  "idle w = (\<not> validating w \<and> inflight w = 0 \<and> session w = None)"

text \<open>Example inputs: no options at all, the three URLs alone, and an interval of 3.\<close>

definition no_options :: useroptions where
  "no_options = \<lparr> u_interval = None, u_accessurl = None, u_updateurl = None,
     u_disposeurl = None, u_playerID = None, u_startPosition = None,
     u_maxUpdateFails = None, u_requestTimeoutInMillis = None \<rparr>"

definition example_options :: useroptions where
  "example_options = no_options\<lparr> u_accessurl := Some (Some ''/access''),
     u_updateurl := Some (Some ''/update''), u_disposeurl := Some (Some ''/dispose'') \<rparr>"

definition example_start :: world where
  "example_start = concurrenceLimiter example_options (fresh False 7 None (1, 1))"

text \<open>
  The state of the release, for the handle \<open>h\<close> and the release URL \<open>d\<close>: nothing is
  released while \<^verbatim>\<open>watchdog\<close> holds the handle; once it is \<^verbatim>\<open>false\<close>, exactly one
  release request, to \<open>d\<close>, is in the trace, and \<open>ClearInterval h\<close> stands before it.
  With \<open>fin\<close> the release has happened.
\<close>

definition once :: "bool \<Rightarrow> nat \<Rightarrow> string option \<Rightarrow> world \<Rightarrow> bool" where
  "once fin h d w =
     (timerHandle w = h \<and> (validating w \<longrightarrow> session w = None) \<and>
      (\<forall>this. cvPlugin w = Some this \<longrightarrow> disposeurl this = d) \<and>
      (case session w of
         None \<Rightarrow> \<not> fin \<and> filter is_release (trace w) = []
       | Some c \<Rightarrow>
           disposeurl (wd_options c) = d \<and>
           (case watchdog c of
              WdNull \<Rightarrow> False
            | WdHandle h' \<Rightarrow> \<not> fin \<and> h' = h \<and> filter is_release (trace w) = []
            | WdFalse \<Rightarrow>
                (\<exists>pl t. filter is_release (trace w) = [Request Release d pl t])
                \<and> ClearInterval h \<in> set (takeWhile (\<lambda>e. \<not> is_release e) (trace w)))))"

text \<open>A step that leaves the watchdog variable, the options and the releases alone.\<close>

definition quiet :: "world \<Rightarrow> world \<Rightarrow> bool" where
  "quiet w w' =
     (timerHandle w' = timerHandle w \<and> cvPlugin w' = cvPlugin w \<and> validating w' = validating w
      \<and> map_option watchdog (session w') = map_option watchdog (session w)
      \<and> map_option wd_options (session w') = map_option wd_options (session w)
      \<and> (\<exists>xs. trace w' = trace w @ xs \<and> filter is_release xs = []))"

definition released :: "world \<Rightarrow> bool" where
  "released w = (case session w of None \<Rightarrow> False | Some c \<Rightarrow> watchdog c = WdFalse)"


text \<open>A body that grants access, and the example session once validated.\<close>

definition ok_body :: body where
  "ok_body = Parsed (JObj [(''success'', JBool True)])"

definition example_running :: world where
  "example_running = run example_start [ValidateResponse None ok_body]"

text \<open>
  Update requests are serialised: at most one awaits its callback, and that is the case
  exactly when \<^verbatim>\<open>pendingRequest\<close> is set.
\<close>

definition serial :: "world \<Rightarrow> bool" where
  "serial w =
     (inflight w \<le> 1 \<and> (validating w \<longrightarrow> session w = None) \<and>
      (case session w of
         None \<Rightarrow> inflight w = 0
       | Some c \<Rightarrow> pendingRequest c = (inflight w = 1)))"

text \<open>
  Consecutive transport failures of the update request, each with its error message
  and body, and each followed by the next firing of the interval.
\<close>

definition failures :: "(string \<times> body) list \<Rightarrow> event list" where
  "failures fs = concat (map (\<lambda>(m, b). [UpdateResponse (Some m) b, Tick]) fs)"

text \<open>A validate response that grants access and reports the position 45.\<close>

definition recovery_body :: body where
  "recovery_body = Parsed (JObj [(''success'', JBool True), (''position'', JNum 45)])"

section \<open>Properties\<close>

lemmas plugin_defs = concurrenceLimiter_def onPlayerReady_def validatePlay_def
  validatePlay_callback_def onValidated_def makeWatchdog_def wdf_def wdf_callback_def
  blockPlayer_def player_dispose_def player_pause_def cleanUp_def recoverStatus_def
  on_loadedmetadata_def on_timeupdate_def makeRequest_def emit_def generate_def
  generateBySessionStorage_def generateRandom0_def generateRandom_def toString_radix_def
  radix_digit_def mergeOptions_def defaults_def url_truthy_def interval_truthy_def
  interval_lt_def interval_millis_def str_truthy_def js_or_def bodyJson_def cb_error_def
  fresh_def run_def since_def no_options_def example_options_def example_start_def

subsection \<open>A world in which nothing is owed stays as it is\<close>

lemma idle_step: "idle w \<Longrightarrow> idle (step w ev) \<and> trace (step w ev) = trace w"
  by (cases ev) (auto simp: idle_def wdf_def cleanUp_def on_loadedmetadata_def on_timeupdate_def
      split: option.splits)

lemma idle_run: "idle w \<Longrightarrow> idle (run w evs) \<and> trace (run w evs) = trace w"
  unfolding run_def
proof (induction evs arbitrary: w)
  case Nil
  then show ?case by simp
next
  case (Cons ev evs)
  from idle_step [OF Cons.prems] Cons.IH [of "step w ev"] show ?case by simp
qed

subsection \<open>Configuration\<close>

text \<open>
  C6. When, after the merge with the defaults, one of \<^verbatim>\<open>accessurl\<close>, \<^verbatim>\<open>updateurl\<close>,
  \<^verbatim>\<open>disposeurl\<close> is falsy (a missing key leaves the default \<^verbatim>\<open>null\<close>), or the interval is
  falsy or below 5, initialisation only logs: whatever the host does afterwards, no
  request is ever issued, no interval is set, no plugin object is constructed and
  \<^verbatim>\<open>makeWatchdog\<close> never runs.
\<close>

theorem invalid_config_aborts:
  assumes "\<not> url_truthy (accessurl (mergeOptions defaults u))
         \<or> \<not> url_truthy (updateurl (mergeOptions defaults u))
         \<or> \<not> url_truthy (disposeurl (mergeOptions defaults u))
         \<or> \<not> interval_truthy (interval (mergeOptions defaults u))
         \<or> interval_lt (interval (mergeOptions defaults u)) 5"
  shows "\<not> list_ex is_request (trace (run (concurrenceLimiter u (fresh p h st r)) evs))
       \<and> \<not> list_ex is_set_interval (trace (run (concurrenceLimiter u (fresh p h st r)) evs))
       \<and> cvPlugin (concurrenceLimiter u (fresh p h st r)) = None
       \<and> session (run (concurrenceLimiter u (fresh p h st r)) evs) = None"
proof -
  let ?w = "concurrenceLimiter u (fresh p h st r)"
  from assms have t:
    "trace ?w = [Log ''concurrenceview plugin'', Log ''concurrenceview: invalid urls'']
      \<or> trace ?w = [Log ''concurrenceview plugin'', Log ''concurrenceview: invalid options'']"
    by (auto simp: concurrenceLimiter_def Let_def emit_def fresh_def)
  from assms have i: "idle ?w" and c: "cvPlugin ?w = None"
    by (auto simp: concurrenceLimiter_def Let_def emit_def fresh_def idle_def)
  from idle_run [OF i, of evs] t c show ?thesis
    by (auto simp: idle_def)
qed

theorem invalid_config_aborts_witness:
  "\<not> url_truthy (accessurl (mergeOptions defaults no_options))
   \<and> \<not> list_ex is_request
         (trace (run (concurrenceLimiter no_options (fresh False 7 None (1, 1)))
            [Tick, LoadedMetadata, DisposeEvent]))
   \<and> session (run (concurrenceLimiter no_options (fresh False 7 None (1, 1)))
         [Tick, LoadedMetadata, DisposeEvent]) = None
   \<and> interval_lt (interval (mergeOptions defaults (example_options\<lparr>u_interval := Some (Some (Num 3))\<rparr>))) 5
   \<and> \<not> list_ex is_request
         (trace (run (concurrenceLimiter (example_options\<lparr>u_interval := Some (Some (Num 3))\<rparr>)
            (fresh False 7 None (1, 1))) [Tick]))"
proof -
  have a: "\<not> url_truthy (accessurl (mergeOptions defaults no_options))"
    by (simp add: mergeOptions_def defaults_def no_options_def url_truthy_def)
  have b: "interval_lt (interval (mergeOptions defaults
              (example_options\<lparr>u_interval := Some (Some (Num 3))\<rparr>))) 5"
    by (simp add: mergeOptions_def defaults_def no_options_def example_options_def interval_lt_def)
  from a b
    invalid_config_aborts [of no_options False 7 None "(1, 1)" "[Tick, LoadedMetadata, DisposeEvent]"]
    invalid_config_aborts [of "example_options\<lparr>u_interval := Some (Some (Num 3))\<rparr>"
      False 7 None "(1, 1)" "[Tick]"]
  show ?thesis by simp
qed

subsection \<open>Identifiers\<close>

text \<open>
  With the radix 32 a value \<open>m / 2 ^ k\<close> has at most \<open>\<lceil>k / 5\<rceil>\<close> digits after the point:
  a random double of 53 bits gives a token of at most 11 characters.
\<close>

lemma frac_digits_zero: "frac_digits n radix 0 k = []"
  by (cases n) simp_all

lemma frac_digits_length:
  "2 ^ j dvd m \<Longrightarrow> m < 2 ^ k \<Longrightarrow> length (frac_digits n 32 m k) \<le> (k - j + 4) div 5"
proof (induction n arbitrary: m j)
  case 0
  then show ?case by simp
next
  case (Suc n)
  show ?case
  proof (cases "m = 0")
    case True
    then show ?thesis by simp
  next
    case False
    with Suc.prems have le: "(2::nat) ^ j \<le> m" by (auto dest: dvd_imp_le)
    from le Suc.prems(2) have "(2::nat) ^ j < 2 ^ k" by (rule le_less_trans)
    then have jk: "j < k" by simp
    have d: "(2::nat) ^ (j + 5) dvd m * 32"
      using Suc.prems(1) by (simp add: power_add mult_dvd_mono)
    show ?thesis
    proof (cases "k \<le> j + 5")
      case True
      then have "(2::nat) ^ k dvd 2 ^ (j + 5)" by (simp add: le_imp_power_dvd)
      from this d have "(2::nat) ^ k dvd m * 32" by (rule dvd_trans)
      then have "(m * 32) mod 2 ^ k = 0" by simp
      with False jk show ?thesis by (simp add: frac_digits_zero)
    next
      case f: False
      then have "(2::nat) ^ (j + 5) dvd 2 ^ k" by (simp add: le_imp_power_dvd)
      with d have "(2::nat) ^ (j + 5) dvd (m * 32) mod 2 ^ k" by (simp add: dvd_mod)
      moreover have "(m * 32) mod 2 ^ k < 2 ^ k" by simp
      ultimately have "length (frac_digits n 32 ((m * 32) mod 2 ^ k) k) \<le> (k - (j + 5) + 4) div 5"
        by (rule Suc.IH)
      with False f show ?thesis by simp
    qed
  qed
qed

lemma generateRandom_length:
  assumes "m < 2 ^ k"
  shows "\<exists>s. generateRandom None (m, k) = Inr s \<and> length s \<le> (k + 4) div 5"
  using frac_digits_length [of 0 m k k] assms
  by (simp add: generateRandom_def toString_radix_def)

text \<open>
  C9. The claim asks for a token of at least 20 characters. With no \<^verbatim>\<open>len\<close> the radix is
  32, and when \<^verbatim>\<open>Math.random()\<close> returns 0.5 (1 / 2 ^ 1) the number prints as
  \<^verbatim>\<open>0.g\<close>, so the token is the single character \<^verbatim>\<open>g\<close>; the identifiers built from it
  are \<^verbatim>\<open>rdm-g\<close> and \<^verbatim>\<open>ssi-g\<close>.
\<close>

theorem generateRandom_short_token:
  "generateRandom None (1, 1) = Inr ''g''
   \<and> fst (generate (defaults\<lparr>playerID := JNull\<rparr>) (fresh False 7 None (1, 1))) = JStr ''rdm-g''
   \<and> fst (generate (defaults\<lparr>playerID := JNull\<rparr>) (fresh False 7 (Some None) (1, 1))) = JStr ''ssi-g''"
  by (simp add: plugin_defs Let_def)

subsection \<open>Callbacks and initialisation\<close>

lemma cb_error_truthy [simp]: "truthy (cb_error err) = (err \<noteq> None)"
  by (cases err) (auto simp: cb_error_def js_or_def)

lemma success_guard [simp]:
  "(truthy v \<and> truthy (get_prop v k)) = truthy (get_prop v k)"
  by (cases v) auto

lemma get_prop_truthy: "truthy (get_prop v k) \<Longrightarrow> truthy v"
  by (cases v) auto

lemma generate_keeps:
  "generate opts w = (pid, w') \<Longrightarrow>
     filter is_request (trace w') = filter is_request (trace w)
     \<and> filter is_set_interval (trace w') = filter is_set_interval (trace w)
     \<and> filter is_block (trace w') = filter is_block (trace w)
     \<and> filter is_update (trace w') = filter is_update (trace w)
     \<and> filter is_release (trace w') = filter is_release (trace w)
     \<and> validating w' = validating w \<and> inflight w' = inflight w \<and> session w' = session w
     \<and> timerHandle w' = timerHandle w"
  by (auto simp: generate_def generateBySessionStorage_def emit_def Let_def
      split: if_splits option.splits prod.splits)

lemma boot_started:
  assumes "validating (concurrenceLimiter u (fresh p h st r))"
  shows "\<exists>this. cvPlugin (concurrenceLimiter u (fresh p h st r)) = Some this
           \<and> disposeurl this = disposeurl (mergeOptions defaults u)
           \<and> updateurl this = updateurl (mergeOptions defaults u)
           \<and> maxUpdateFails this = maxUpdateFails (mergeOptions defaults u)"
    and "session (concurrenceLimiter u (fresh p h st r)) = None"
    and "inflight (concurrenceLimiter u (fresh p h st r)) = 0"
    and "timerHandle (concurrenceLimiter u (fresh p h st r)) = h"
    and "filter is_block (trace (concurrenceLimiter u (fresh p h st r))) = []"
    and "filter is_set_interval (trace (concurrenceLimiter u (fresh p h st r))) = []"
    and "filter is_update (trace (concurrenceLimiter u (fresh p h st r))) = []"
    and "filter is_release (trace (concurrenceLimiter u (fresh p h st r))) = []"
proof -
  let ?o = "mergeOptions defaults u"
  let ?w1 = "emit (AddClass ''vjs-concurrence-limiter'') (emit (Log ''concurrenceview plugin'') (fresh p h st r))"
  obtain pid w' where g: "generate ?o ?w1 = (pid, w')" by (cases "generate ?o ?w1")
  from assms have v: "concurrenceLimiter u (fresh p h st r) = onPlayerReady ?o (emit (Log ''concurrenceview plugin'') (fresh p h st r))"
    by (auto simp: concurrenceLimiter_def Let_def emit_def fresh_def split: if_splits)
  have w: "onPlayerReady ?o (emit (Log ''concurrenceview plugin'') (fresh p h st r))
      = validatePlay (?o\<lparr>playerID := pid\<rparr>) (w'\<lparr>cvPlugin := Some (?o\<lparr>playerID := pid\<rparr>)\<rparr>)"
    using g by (simp add: onPlayerReady_def Let_def)
  note k = generate_keeps [OF g]
  show "\<exists>this. cvPlugin (concurrenceLimiter u (fresh p h st r)) = Some this
           \<and> disposeurl this = disposeurl (mergeOptions defaults u)
           \<and> updateurl this = updateurl (mergeOptions defaults u)
           \<and> maxUpdateFails this = maxUpdateFails (mergeOptions defaults u)"
    unfolding v w by (simp add: validatePlay_def makeRequest_def emit_def Let_def)
  show "session (concurrenceLimiter u (fresh p h st r)) = None"
    unfolding v w using k by (simp add: validatePlay_def makeRequest_def emit_def Let_def fresh_def)
  show "inflight (concurrenceLimiter u (fresh p h st r)) = 0"
    unfolding v w using k by (simp add: validatePlay_def makeRequest_def emit_def Let_def fresh_def)
  show "timerHandle (concurrenceLimiter u (fresh p h st r)) = h"
    unfolding v w using k by (simp add: validatePlay_def makeRequest_def emit_def Let_def fresh_def)
  show "filter is_block (trace (concurrenceLimiter u (fresh p h st r))) = []"
    unfolding v w using k by (simp add: validatePlay_def makeRequest_def emit_def Let_def fresh_def)
  show "filter is_set_interval (trace (concurrenceLimiter u (fresh p h st r))) = []"
    unfolding v w using k by (simp add: validatePlay_def makeRequest_def emit_def Let_def fresh_def)
  show "filter is_update (trace (concurrenceLimiter u (fresh p h st r))) = []"
    unfolding v w using k by (simp add: validatePlay_def makeRequest_def emit_def Let_def fresh_def)
  show "filter is_release (trace (concurrenceLimiter u (fresh p h st r))) = []"
    unfolding v w using k by (simp add: validatePlay_def makeRequest_def emit_def Let_def fresh_def)
qed

lemma validate_failure:
  assumes "validating w" "cvPlugin w = Some this" "session w = None" "inflight w = 0"
    and "err \<noteq> None \<or> \<not> truthy (get_prop (bodyJson b) ''success'')"
  shows "trace (step w (ValidateResponse err b)) = trace w @
           (if err \<noteq> None then [Log ''concurrenceview: canplay api error''] else []) @
           [Log ''concurrenceview: error'', Log ''concurrenceview: stop player - '',
            Trigger (AvPlayerBloked (JStr ''cantplay'')
              (JStr ''Has alcanzado la cantidad maxima de players activos.'')
              (JErr (if err \<noteq> None then cb_error err else JStr ''Player Auth error''))),
            Pause, Dispose]"
    and "idle (step w (ValidateResponse err b))"
  using assms
  by (auto simp: validatePlay_callback_def onValidated_def blockPlayer_def player_dispose_def
      player_pause_def cleanUp_def emit_def js_or_def idle_def Let_def)

text \<open>
  C7. When the validate request was issued and its callback gets a transport error, or a
  body whose \<^verbatim>\<open>success\<close> is falsy (an empty or unparsable body included), the
  \<^verbatim>\<open>avplayerbloked\<close> event fires once, with the code \<^verbatim>\<open>cantplay\<close> (the reason code the
  spec words as "cannot play") and the default message as its text, and whatever the
  host does afterwards \<^verbatim>\<open>makeWatchdog\<close> never runs: no closure, no interval, no update
  request.
\<close>

theorem validate_failure_blocks:
  assumes "validating (concurrenceLimiter u (fresh p h st r))"
    and "err \<noteq> None \<or> \<not> truthy (get_prop (bodyJson b) ''success'')"
  shows "filter is_block
           (trace (step (concurrenceLimiter u (fresh p h st r)) (ValidateResponse err b))) =
           [Trigger (AvPlayerBloked (JStr ''cantplay'')
              (JStr ''Has alcanzado la cantidad maxima de players activos.'')
              (JErr (if err \<noteq> None then cb_error err else JStr ''Player Auth error'')))]
       \<and> session (run (concurrenceLimiter u (fresh p h st r)) (ValidateResponse err b # evs))
           = None
       \<and> \<not> list_ex is_set_interval
           (trace (run (concurrenceLimiter u (fresh p h st r)) (ValidateResponse err b # evs)))
       \<and> \<not> list_ex is_update
           (trace (run (concurrenceLimiter u (fresh p h st r)) (ValidateResponse err b # evs)))"
proof -
  let ?w = "concurrenceLimiter u (fresh p h st r)"
  let ?w1 = "step ?w (ValidateResponse err b)"
  from boot_started(1) [OF assms(1)] obtain this where t: "cvPlugin ?w = Some this" by auto
  note s = boot_started(2,3,5,6,7) [OF assms(1)]
  note f = validate_failure [OF assms(1) t s(1,2) assms(2)]
  from idle_run [OF f(2), of evs] have r: "session (run ?w1 evs) = None"
    "trace (run ?w1 evs) = trace ?w1" by (simp_all add: idle_def)
  have c: "run ?w (ValidateResponse err b # evs) = run ?w1 evs" by (simp add: run_def)
  from f(1) s(3) have 1: "filter is_block (trace ?w1) =
           [Trigger (AvPlayerBloked (JStr ''cantplay'')
              (JStr ''Has alcanzado la cantidad maxima de players activos.'')
              (JErr (if err \<noteq> None then cb_error err else JStr ''Player Auth error'')))]"
    by simp
  from f(1) s(4) have 2: "filter is_set_interval (trace ?w1) = []" by simp
  from f(1) s(5) have 3: "filter is_update (trace ?w1) = []" by simp
  from 2 have n2: "\<not> list_ex is_set_interval (trace ?w1)"
    by (simp add: list_ex_iff filter_empty_conv)
  from 3 have n3: "\<not> list_ex is_update (trace ?w1)"
    by (simp add: list_ex_iff filter_empty_conv)
  from 1 n2 n3 r show ?thesis unfolding c by simp
qed

theorem validate_failure_blocks_witness:
  "validating example_start
   \<and> \<not> truthy (get_prop (bodyJson (Parsed (JObj [(''success'', JBool False)]))) ''success'')
   \<and> filter is_block (trace (step example_start
         (ValidateResponse None (Parsed (JObj [(''success'', JBool False)]))))) =
        [Trigger (AvPlayerBloked (JStr ''cantplay'')
           (JStr ''Has alcanzado la cantidad maxima de players activos.'')
           (JErr (JStr ''Player Auth error'')))]
   \<and> session (run example_start
         [ValidateResponse None (Parsed (JObj [(''success'', JBool False)])), Tick, LoadedMetadata])
       = None
   \<and> filter is_block (trace (step example_start (ValidateResponse (Some ''timeout'') EmptyBody))) =
        [Trigger (AvPlayerBloked (JStr ''cantplay'')
           (JStr ''Has alcanzado la cantidad maxima de players activos.'')
           (JErr (JStr ''timeout'')))]"
proof -
  have a: "validating (concurrenceLimiter example_options (fresh False 7 None (1, 1)))"
    by (simp add: plugin_defs Let_def)
  have b: "None \<noteq> None
      \<or> \<not> truthy (get_prop (bodyJson (Parsed (JObj [(''success'', JBool False)]))) ''success'')"
    by (simp add: bodyJson_def)
  have c: "Some ''timeout'' \<noteq> None \<or> \<not> truthy (get_prop (bodyJson EmptyBody) ''success'')"
    by simp
  from a b validate_failure_blocks [OF a b, of "[Tick, LoadedMetadata]"]
    validate_failure_blocks [OF a c, of "[]"]
  show ?thesis by (simp add: example_start_def cb_error_def js_or_def)
qed

subsection \<open>The release happens once\<close>

lemma takeWhile_no_release:
  "filter is_release xs = [] \<Longrightarrow>
     takeWhile (\<lambda>e. \<not> is_release e) (xs @ ys) = xs @ takeWhile (\<lambda>e. \<not> is_release e) ys"
  by (simp add: filter_empty_conv)

lemma takeWhile_one_release:
  "filter is_release xs = [x] \<Longrightarrow>
     takeWhile (\<lambda>e. \<not> is_release e) (xs @ ys) = takeWhile (\<lambda>e. \<not> is_release e) xs"
proof -
  assume "filter is_release xs = [x]"
  then have "x \<in> set (filter is_release xs)" by simp
  then have "x \<in> set xs" "\<not> \<not> is_release x" by auto
  then show ?thesis by (rule takeWhile_append1)
qed


lemma quiet_emit: "\<not> is_release e \<Longrightarrow> quiet w (emit e w)"
  by (simp add: quiet_def emit_def)

lemma quiet_session:
  "session w = Some c \<Longrightarrow> watchdog c' = watchdog c \<Longrightarrow> wd_options c' = wd_options c \<Longrightarrow>
     quiet w (w\<lparr>session := Some c'\<rparr>)"
  by (simp add: quiet_def)

lemma quiet_wdf: "quiet w (wdf w)"
  by (auto simp: quiet_def wdf_def makeRequest_def emit_def Let_def split: option.splits)

lemma quiet_loadedmetadata: "quiet w (on_loadedmetadata w)"
  by (auto simp: quiet_def on_loadedmetadata_def Let_def split: option.splits)

lemma quiet_timeupdate: "quiet w (on_timeupdate (w\<lparr>playbackPosition := t\<rparr>))"
  by (auto simp: quiet_def on_timeupdate_def emit_def Let_def split: option.splits)

lemma once_quiet:
  assumes "once fin h d w" and "quiet w w'"
  shows "once fin h d w'"
proof -
  from assms(2) obtain xs where
    x: "trace w' = trace w @ xs" "filter is_release xs = []"
    and f: "timerHandle w' = timerHandle w" "cvPlugin w' = cvPlugin w"
      "validating w' = validating w"
      "map_option watchdog (session w') = map_option watchdog (session w)"
      "map_option wd_options (session w') = map_option wd_options (session w)"
    by (auto simp: quiet_def)
  show ?thesis
  proof (cases "session w")
    case None
    with f(4) have "session w' = None" by simp
    with None assms(1) x f show ?thesis by (simp add: once_def)
  next
    case (Some c)
    with f(4) obtain c' where c': "session w' = Some c'" by (cases "session w'") auto
    with Some f have e: "watchdog c' = watchdog c" "wd_options c' = wd_options c" by auto
    show ?thesis
    proof (cases "watchdog c")
      case WdNull
      with Some assms(1) show ?thesis by (simp add: once_def)
    next
      case (WdHandle h')
      with Some c' e assms(1) x f show ?thesis by (simp add: once_def)
    next
      case WdFalse
      with Some assms(1) obtain pl t where
        r: "filter is_release (trace w) = [Request Release d pl t]"
        and k: "ClearInterval h \<in> set (takeWhile (\<lambda>e. \<not> is_release e) (trace w))"
        by (auto simp: once_def)
      from r have "takeWhile (\<lambda>e. \<not> is_release e) (trace w @ xs)
          = takeWhile (\<lambda>e. \<not> is_release e) (trace w)"
        by (rule takeWhile_one_release)
      with WdFalse Some c' e assms(1) x f r k show ?thesis by (simp add: once_def)
    qed
  qed
qed

lemma once_cleanUp:
  assumes "h \<noteq> 0" and "once fin h d w"
  shows "once fin h d (cleanUp w)"
proof (cases "session w")
  case None
  with assms show ?thesis by (simp add: cleanUp_def)
next
  case (Some c)
  show ?thesis
  proof (cases "watchdog c")
    case WdNull
    with Some assms show ?thesis by (simp add: once_def)
  next
    case (WdHandle h')
    with Some assms have h': "h' = h" and n: "filter is_release (trace w) = []"
      by (auto simp: once_def)
    from n have "takeWhile (\<lambda>e. \<not> is_release e)
        (trace w @ [Log ''concurrenceview: DISPOSE'', ClearInterval h,
           Request Release (disposeurl (wd_options c))
             (JObj [(''player'', cur_playerID c), (''position'', JNum (lasTime c)),
                    (''token'', playerToken c), (''status'', JStr ''paused'')])
             (requestTimeoutInMillis (wd_options c))])
        = trace w @ [Log ''concurrenceview: DISPOSE'', ClearInterval h]"
      by (simp add: takeWhile_no_release)
    with WdHandle Some assms h' n show ?thesis
      by (simp add: once_def cleanUp_def makeRequest_def emit_def Let_def)
  next
    case WdFalse
    with Some have "cleanUp w = emit (Log ''concurrenceview: DISPOSE'') w"
      by (simp add: cleanUp_def Let_def)
    with assms(2) quiet_emit [of "Log ''concurrenceview: DISPOSE''" w] show ?thesis
      by (simp add: once_quiet)
  qed
qed

lemma once_blockPlayer:
  assumes "h \<noteq> 0" and "once fin h d w"
  shows "once fin h d (blockPlayer code error reason w)"
proof -
  have "quiet w (emit Dispose (player_pause (emit (Trigger (AvPlayerBloked (js_or code (JStr ''error''))
      (js_or reason (JStr ''Has alcanzado la cantidad maxima de players activos.'')) error))
      (emit (Log ''concurrenceview: stop player - '') w))))"
    by (simp add: quiet_def player_pause_def emit_def)
  from once_cleanUp [OF assms(1) once_quiet [OF assms(2) this]] show ?thesis
    by (simp add: blockPlayer_def player_dispose_def Let_def)
qed


lemma quiet_bump:
  "quiet w (case session w of None \<Rightarrow> w
            | Some c1 \<Rightarrow> w\<lparr>session := Some (c1\<lparr>failedRequest := Suc (failedRequest c1)\<rparr>)\<rparr>)"
  by (auto simp: quiet_def split: option.splits)

lemma once_wdf_callback:
  assumes "h \<noteq> 0" and "once fin h d w"
  shows "once fin h d (wdf_callback error response w)"
proof (cases "session w")
  case None
  with assms show ?thesis by (simp add: wdf_callback_def)
next
  case (Some c0)
  let ?c = "c0\<lparr>pendingRequest := False\<rparr>"
  let ?c' = "c0\<lparr>pendingRequest := False, failedRequest := 0\<rparr>"
  have a: "once fin h d (w\<lparr>session := Some ?c\<rparr>)"
    using once_quiet [OF assms(2) quiet_session [OF Some, of ?c]] by simp
  have a': "once fin h d (w\<lparr>session := Some ?c'\<rparr>)"
    using once_quiet [OF assms(2) quiet_session [OF Some, of ?c']] by simp
  show ?thesis
  proof (cases "truthy error")
    case True
    define w1 where "w1 =
      (if int (failedRequest ?c) \<ge> maxUpdateFails (wd_options ?c) then
         blockPlayer JPlayer (JStr ''authapifail'') (JObj [(''msg'', error)])
           (emit (Log ''concurrenceview: update api error'') (w\<lparr>session := Some ?c\<rparr>))
       else w\<lparr>session := Some ?c\<rparr>)"
    have "once fin h d (emit (Log ''concurrenceview: update api error'') (w\<lparr>session := Some ?c\<rparr>))"
      by (rule once_quiet [OF a]) (simp add: quiet_emit)
    with a assms(1) have o1: "once fin h d w1"
      unfolding w1_def by (simp add: once_blockPlayer del: of_nat_le_iff)
    have "wdf_callback error response w =
        (case session w1 of None \<Rightarrow> w1
         | Some c1 \<Rightarrow> w1\<lparr>session := Some (c1\<lparr>failedRequest := Suc (failedRequest c1)\<rparr>)\<rparr>)"
      unfolding w1_def using Some True by (simp add: wdf_callback_def Let_def)
    with once_quiet [OF o1 quiet_bump] show ?thesis by simp
  next
    case False
    show ?thesis
    proof (cases "truthy (get_prop response ''success'')")
      case True
      with False Some get_prop_truthy [of response "''success''"]
      have "wdf_callback error response w =
          w\<lparr>session := Some (?c'\<lparr>
               cur_playerID := js_or (get_prop response ''player'') (cur_playerID ?c'),
               playerToken := js_or (get_prop response ''token'') (playerToken ?c')\<rparr>)\<rparr>"
        by (simp add: wdf_callback_def Let_def)
      with once_quiet [OF assms(2) quiet_session [OF Some]] show ?thesis by simp
    next
      case d: False
      have "once fin h d (emit (Log ''Player Auth error'') (w\<lparr>session := Some ?c'\<rparr>))"
        by (rule once_quiet [OF a']) (simp add: quiet_emit)
      from once_blockPlayer [OF assms(1) this] False d Some show ?thesis
        by (simp add: wdf_callback_def Let_def)
    qed
  qed
qed

lemma once_makeWatchdog:
  assumes "once fin h d w" and "session w = None" and "\<not> validating w" and "disposeurl this = d"
    and "h \<noteq> 0"
  shows "once fin h d (makeWatchdog this ok w)"
proof -
  let ?c = "\<lparr> wd_options = this, watchdog = WdHandle h,
                lasTime = (if startPosition this \<noteq> 0 then startPosition this else 0),
                playerToken = JNull, cur_playerID = playerID this, loadedmetadata = False,
                pendingRequest = False, failedRequest = 0 \<rparr>"
  let ?w2 = "w\<lparr>trace := trace w @ [Log ''concurrence plugin: ok'',
      SetInterval (interval_millis (interval this)) h], session := Some ?c\<rparr>"
  from assms have "once fin h d ?w2" by (simp add: once_def)
  moreover from assms(1) have "timerHandle w = h" by (simp add: once_def)
  then have "makeWatchdog this ok w = wdf ?w2"
    by (simp add: makeWatchdog_def emit_def Let_def)
  ultimately show ?thesis using once_quiet [OF _ quiet_wdf] by simp
qed

lemma once_validate:
  assumes "h \<noteq> 0" and "once fin h d w" and "validating w" and "cvPlugin w = Some this"
  shows "once fin h d (validatePlay_callback this error ok (w\<lparr>validating := False\<rparr>))"
proof -
  from assms have n: "session w = None" and dd: "disposeurl this = d" by (auto simp: once_def)
  from assms n have o: "once fin h d (w\<lparr>validating := False\<rparr>)" by (simp add: once_def)
  have b: "\<And>s e. once fin h d (blockPlayer (JStr ''cantplay'') e JUndefined
       (emit (Log s) (w\<lparr>validating := False\<rparr>)))"
    by (rule once_blockPlayer [OF assms(1)], rule once_quiet [OF o]) (simp add: quiet_emit)
  have b2: "\<And>s s' e. once fin h d (blockPlayer (JStr ''cantplay'') e JUndefined
       (emit (Log s') (emit (Log s) (w\<lparr>validating := False\<rparr>))))"
    by (rule once_blockPlayer [OF assms(1)], rule once_quiet [OF o])
       (simp add: quiet_def emit_def)
  have r: "once fin h d (recoverStatus ok (w\<lparr>validating := False\<rparr>))"
    by (rule once_quiet [OF o]) (simp add: quiet_def recoverStatus_def)
  have "once fin h d (makeWatchdog this ok (recoverStatus ok (w\<lparr>validating := False\<rparr>)))"
    by (rule once_makeWatchdog [OF r _ _ dd assms(1)]) (simp_all add: recoverStatus_def n)
  from once_quiet [OF this quiet_emit [of "Trigger AvPlayerCanPlay"]] b b2 show ?thesis
    by (simp add: validatePlay_callback_def onValidated_def)
qed

lemma once_step:
  assumes "h \<noteq> 0" and "once fin h d w"
  shows "once fin h d (step w ev)"
proof (cases ev)
  case (ValidateResponse err b)
  with assms once_validate show ?thesis by (simp split: option.splits)
next
  case Tick
  with once_quiet [OF assms(2) quiet_wdf] show ?thesis by simp
next
  case (UpdateResponse err b)
  have "once fin h d (w\<lparr>inflight := inflight w - 1\<rparr>)"
    by (rule once_quiet [OF assms(2)]) (simp add: quiet_def)
  from once_wdf_callback [OF assms(1) this] UpdateResponse assms(2) show ?thesis by simp
next
  case LoadedMetadata
  with once_quiet [OF assms(2) quiet_loadedmetadata] show ?thesis by simp
next
  case (TimeUpdate t)
  with once_quiet [OF assms(2) quiet_timeupdate] show ?thesis by simp
next
  case DisposeEvent
  with once_cleanUp [OF assms] show ?thesis by simp
next
  case BeforeUnload
  with once_cleanUp [OF assms] show ?thesis by simp
next
  case PlayEvent
  have "quiet w (w\<lparr>paused := False\<rparr>)" by (simp add: quiet_def)
  with once_quiet [OF assms(2)] PlayEvent show ?thesis by simp
next
  case PauseEvent
  have "quiet w (w\<lparr>paused := True\<rparr>)" by (simp add: quiet_def)
  with once_quiet [OF assms(2)] PauseEvent show ?thesis by simp
qed

lemma once_run: "h \<noteq> 0 \<Longrightarrow> once fin h d w \<Longrightarrow> once fin h d (run w evs)"
  unfolding run_def by (induction evs arbitrary: w) (simp_all add: once_step)



lemma once_released: "once fin h d w \<Longrightarrow> released w \<Longrightarrow> once True h d w"
  by (cases "session w") (auto simp: once_def released_def split: wd.splits)

lemma cleanUp_released:
  assumes "session w = Some c" and "watchdog c = WdHandle h \<or> watchdog c = WdFalse" and "h \<noteq> 0"
  shows "released (cleanUp w)"
  using assms by (auto simp: released_def cleanUp_def makeRequest_def emit_def Let_def)

lemma once_finish:
  assumes "h \<noteq> 0" and "once fin h d w" and "session w \<noteq> None"
  shows "once True h d (cleanUp w)"
proof -
  from assms(3) obtain c where c: "session w = Some c" by auto
  with assms(2) have "watchdog c = WdHandle h \<or> watchdog c = WdFalse"
    by (cases "watchdog c") (simp_all add: once_def)
  from cleanUp_released [OF c this assms(1)] once_cleanUp [OF assms(1,2)] show ?thesis
    by (rule once_released [rotated])
qed



lemma boot_idle:
  assumes "\<not> validating (concurrenceLimiter u (fresh p h st r))"
  shows "idle (concurrenceLimiter u (fresh p h st r))"
    and "cvPlugin (concurrenceLimiter u (fresh p h st r)) = None"
    and "timerHandle (concurrenceLimiter u (fresh p h st r)) = h"
    and "filter is_release (trace (concurrenceLimiter u (fresh p h st r))) = []"
proof -
  let ?o = "mergeOptions defaults u"
  let ?w0 = "emit (Log ''concurrenceview plugin'') (fresh p h st r)"
  let ?c1 = "\<not> url_truthy (accessurl ?o) \<or> \<not> url_truthy (updateurl ?o)
               \<or> \<not> url_truthy (disposeurl ?o)"
  let ?c2 = "\<not> interval_truthy (interval ?o) \<or> interval_lt (interval ?o) 5"
  obtain pid w' where g: "generate ?o (emit (AddClass ''vjs-concurrence-limiter'') ?w0) = (pid, w')"
    by (cases "generate ?o (emit (AddClass ''vjs-concurrence-limiter'') ?w0)")
  then have v: "validating (onPlayerReady ?o ?w0)"
    by (simp add: onPlayerReady_def validatePlay_def makeRequest_def emit_def Let_def)
  have e: "concurrenceLimiter u (fresh p h st r) =
      (if ?c1 then emit (Log ''concurrenceview: invalid urls'') ?w0
       else if ?c2 then emit (Log ''concurrenceview: invalid options'') ?w0
       else onPlayerReady ?o ?w0)"
    by (simp add: concurrenceLimiter_def Let_def)
  have "?c1 \<or> ?c2"
  proof (rule ccontr)
    assume "\<not> (?c1 \<or> ?c2)"
    with e have "concurrenceLimiter u (fresh p h st r) = onPlayerReady ?o ?w0" by simp
    with v assms show False by simp
  qed
  with e have "concurrenceLimiter u (fresh p h st r) = emit (Log ''concurrenceview: invalid urls'') ?w0
     \<or> concurrenceLimiter u (fresh p h st r) = emit (Log ''concurrenceview: invalid options'') ?w0"
    by (cases ?c1) simp_all
  then show "idle (concurrenceLimiter u (fresh p h st r))"
    and "cvPlugin (concurrenceLimiter u (fresh p h st r)) = None"
    and "timerHandle (concurrenceLimiter u (fresh p h st r)) = h"
    and "filter is_release (trace (concurrenceLimiter u (fresh p h st r))) = []"
    by (auto simp: idle_def emit_def fresh_def)
qed

lemma boot_once:
  "once False h (disposeurl (mergeOptions defaults u)) (concurrenceLimiter u (fresh p h st r))"
proof (cases "validating (concurrenceLimiter u (fresh p h st r))")
  case True
  from boot_started [OF True] show ?thesis by (auto simp: once_def)
next
  case False
  from boot_idle [OF False] show ?thesis by (auto simp: once_def idle_def)
qed

lemma run_append: "run w (xs @ ys) = run (run w xs) ys"
  by (simp add: run_def)

lemma run_Cons: "run w (x # xs) = run (step w x) xs"
  by (simp add: run_def)

lemma once_True_trace:
  assumes "once True h d w"
  shows "(\<exists>pl t. filter is_release (trace w) = [Request Release d pl t])
       \<and> ClearInterval h \<in> set (takeWhile (\<lambda>e. \<not> is_release e) (trace w))"
proof (cases "session w")
  case None
  with assms show ?thesis by (simp add: once_def)
next
  case (Some c)
  with assms show ?thesis by (cases "watchdog c") (simp_all add: once_def)
qed

text \<open>
  C4. Let the handle returned by \<^verbatim>\<open>player.setInterval\<close> be truthy (a browser returns a
  positive integer). Once \<^verbatim>\<open>makeWatchdog\<close> has run, after a first shutdown trigger (the
  player's \<^verbatim>\<open>dispose\<close> or the window's \<^verbatim>\<open>beforeunload\<close>) and whatever follows it (more
  triggers, ticks, callbacks, in any order), the trace holds exactly one release request,
  sent to \<^verbatim>\<open>disposeurl\<close>, and the \<^verbatim>\<open>clearInterval\<close> of the handle stands before it.
\<close>

theorem release_exactly_once:
  assumes "h \<noteq> 0"
    and "session (run (concurrenceLimiter u (fresh p h st r)) evs) \<noteq> None"
    and "sh = DisposeEvent \<or> sh = BeforeUnload"
  shows "(\<exists>pl t. filter is_release
             (trace (run (concurrenceLimiter u (fresh p h st r)) (evs @ sh # evs')))
           = [Request Release (disposeurl (mergeOptions defaults u)) pl t])
       \<and> ClearInterval h \<in> set (takeWhile (\<lambda>e. \<not> is_release e)
             (trace (run (concurrenceLimiter u (fresh p h st r)) (evs @ sh # evs'))))"
proof -
  let ?d = "disposeurl (mergeOptions defaults u)"
  let ?w1 = "run (concurrenceLimiter u (fresh p h st r)) evs"
  have "once False h ?d ?w1" by (rule once_run [OF assms(1) boot_once])
  from once_finish [OF assms(1) this assms(2)] assms(3) have "once True h ?d (step ?w1 sh)"
    by auto
  from once_run [OF assms(1) this, of evs'] have "once True h ?d (run ?w1 (sh # evs'))"
    by (simp add: run_Cons)
  then have "once True h ?d (run (concurrenceLimiter u (fresh p h st r)) (evs @ sh # evs'))"
    by (simp add: run_append)
  then show ?thesis by (rule once_True_trace)
qed

theorem release_exactly_once_witness:
  "(7::nat) \<noteq> 0
   \<and> session (run (concurrenceLimiter example_options (fresh False 7 None (1, 1)))
        [ValidateResponse None ok_body]) \<noteq> None
   \<and> (\<exists>pl t. filter is_release
          (trace (run (concurrenceLimiter example_options (fresh False 7 None (1, 1)))
             ([ValidateResponse None ok_body] @ DisposeEvent # [BeforeUnload, Tick, DisposeEvent])))
        = [Request Release (disposeurl (mergeOptions defaults example_options)) pl t])
   \<and> ClearInterval 7 \<in> set (takeWhile (\<lambda>e. \<not> is_release e)
          (trace (run (concurrenceLimiter example_options (fresh False 7 None (1, 1)))
             ([ValidateResponse None ok_body] @ DisposeEvent # [BeforeUnload, Tick, DisposeEvent]))))"
proof -
  have a: "(7::nat) \<noteq> 0" by simp
  have b: "session (run (concurrenceLimiter example_options (fresh False 7 None (1, 1)))
        [ValidateResponse None ok_body]) \<noteq> None"
    by (simp add: ok_body_def plugin_defs Let_def)
  from a b release_exactly_once [OF a b, of DisposeEvent "[BeforeUnload, Tick, DisposeEvent]"]
  show ?thesis by simp
qed

subsection \<open>The example session\<close>

lemma example_running_session:
  "session example_running = Some \<lparr> wd_options = \<lparr> interval = Some (Num 10),
       accessurl = Some ''/access'', updateurl = Some ''/update'', disposeurl = Some ''/dispose'',
       playerID = JStr ''rdm-g'', startPosition = 0, maxUpdateFails = 1,
       requestTimeoutInMillis = 15000 \<rparr>,
     watchdog = WdHandle 7, lasTime = 0, playerToken = JNull, cur_playerID = JStr ''rdm-g'',
     loadedmetadata = False, pendingRequest = True, failedRequest = 0 \<rparr>"
  by (simp add: example_running_def ok_body_def plugin_defs Let_def)

lemma example_running_inflight: "inflight example_running = 1"
  by (simp add: example_running_def ok_body_def plugin_defs Let_def)

subsection \<open>What a handler adds to the trace\<close>

lemma cleanUp_adds:
  "trace (cleanUp w) = trace w @ since w (cleanUp w)"
  "filter is_block (since w (cleanUp w)) = []"
  by (auto simp: cleanUp_def makeRequest_def emit_def since_def Let_def
      split: option.splits wd.splits)

lemma cleanUp_live:
  assumes "session w = Some c" and "watchdog c = WdHandle h" and "h \<noteq> 0"
  shows "cleanUp w = w\<lparr>trace := trace w @
      [Log ''concurrenceview: DISPOSE'', ClearInterval h,
       Request Release (disposeurl (wd_options c))
         (JObj [(''player'', cur_playerID c), (''position'', JNum (lasTime c)),
                (''token'', playerToken c), (''status'', JStr ''paused'')])
         (requestTimeoutInMillis (wd_options c))],
      session := Some (c\<lparr>watchdog := WdFalse\<rparr>)\<rparr>"
  using assms by (simp add: cleanUp_def makeRequest_def emit_def Let_def)

lemma blockPlayer_adds:
  "trace (blockPlayer code error reason w) = trace w @ since w (blockPlayer code error reason w)"
  "filter is_block (since w (blockPlayer code error reason w)) =
     [Trigger (AvPlayerBloked (js_or code (JStr ''error''))
        (js_or reason (JStr ''Has alcanzado la cantidad maxima de players activos.'')) error)]"
  "Pause \<in> set (since w (blockPlayer code error reason w))"
  "Dispose \<in> set (since w (blockPlayer code error reason w))"
proof -
  let ?w2 = "emit Dispose (player_pause (emit (Trigger (AvPlayerBloked (js_or code (JStr ''error''))
      (js_or reason (JStr ''Has alcanzado la cantidad maxima de players activos.'')) error))
      (emit (Log ''concurrenceview: stop player - '') w)))"
  have b: "blockPlayer code error reason w = cleanUp ?w2"
    by (simp add: blockPlayer_def player_dispose_def Let_def)
  have t: "trace ?w2 = trace w @ [Log ''concurrenceview: stop player - '',
      Trigger (AvPlayerBloked (js_or code (JStr ''error''))
        (js_or reason (JStr ''Has alcanzado la cantidad maxima de players activos.'')) error),
      Pause, Dispose]"
    by (simp add: emit_def player_pause_def)
  from cleanUp_adds(1) [of ?w2] t
  have e: "trace (cleanUp ?w2) = trace w @ [Log ''concurrenceview: stop player - '',
      Trigger (AvPlayerBloked (js_or code (JStr ''error''))
        (js_or reason (JStr ''Has alcanzado la cantidad maxima de players activos.'')) error),
      Pause, Dispose] @ since ?w2 (cleanUp ?w2)"
    by simp
  then have s: "since w (cleanUp ?w2) = [Log ''concurrenceview: stop player - '',
      Trigger (AvPlayerBloked (js_or code (JStr ''error''))
        (js_or reason (JStr ''Has alcanzado la cantidad maxima de players activos.'')) error),
      Pause, Dispose] @ since ?w2 (cleanUp ?w2)"
    by (simp add: since_def [of w])
  from e s show "trace (blockPlayer code error reason w)
      = trace w @ since w (blockPlayer code error reason w)"
    unfolding b by simp
  from s cleanUp_adds(2) [of ?w2]
  show "filter is_block (since w (blockPlayer code error reason w)) =
     [Trigger (AvPlayerBloked (js_or code (JStr ''error''))
        (js_or reason (JStr ''Has alcanzado la cantidad maxima de players activos.'')) error)]"
    unfolding b by simp
  from s show "Pause \<in> set (since w (blockPlayer code error reason w))"
    unfolding b by simp
  from s show "Dispose \<in> set (since w (blockPlayer code error reason w))"
    unfolding b by simp
qed

lemma blockPlayer_live:
  assumes "session w = Some c" and "watchdog c = WdHandle h" and "h \<noteq> 0"
  shows "blockPlayer code error reason w = w\<lparr>paused := True, trace := trace w @
      [Log ''concurrenceview: stop player - '',
       Trigger (AvPlayerBloked (js_or code (JStr ''error''))
         (js_or reason (JStr ''Has alcanzado la cantidad maxima de players activos.'')) error),
       Pause, Dispose,
       Log ''concurrenceview: DISPOSE'', ClearInterval h,
       Request Release (disposeurl (wd_options c))
         (JObj [(''player'', cur_playerID c), (''position'', JNum (lasTime c)),
                (''token'', playerToken c), (''status'', JStr ''paused'')])
         (requestTimeoutInMillis (wd_options c))],
      session := Some (c\<lparr>watchdog := WdFalse\<rparr>)\<rparr>"
  using assms
  by (simp add: blockPlayer_def player_dispose_def player_pause_def cleanUp_def makeRequest_def
      emit_def Let_def)

lemma cleanUp_keeps:
  "validating (cleanUp w) = validating w"
  "inflight (cleanUp w) = inflight w"
  "map_option pendingRequest (session (cleanUp w)) = map_option pendingRequest (session w)"
  "map_option failedRequest (session (cleanUp w)) = map_option failedRequest (session w)"
  by (auto simp: cleanUp_def makeRequest_def emit_def Let_def split: option.splits wd.splits)

lemma blockPlayer_keeps:
  "validating (blockPlayer code error reason w) = validating w"
  "inflight (blockPlayer code error reason w) = inflight w"
  "map_option pendingRequest (session (blockPlayer code error reason w))
     = map_option pendingRequest (session w)"
  "map_option failedRequest (session (blockPlayer code error reason w))
     = map_option failedRequest (session w)"
  by (simp_all add: blockPlayer_def player_dispose_def Let_def cleanUp_keeps
      player_pause_def emit_def)

lemma wdf_callback_denied:
  assumes "session w = Some c" and "\<not> truthy (get_prop response ''success'')"
  shows "wdf_callback JNull response w =
     blockPlayer JPlayer (JStr ''noauth'') response
       (emit (Log ''Player Auth error'')
          (w\<lparr>session := Some (c\<lparr>pendingRequest := False, failedRequest := 0\<rparr>)\<rparr>))"
  using assms by (simp add: wdf_callback_def Let_def)

lemma since_emit_then:
  "trace w' = trace (emit e w) @ xs \<Longrightarrow> since w w' = e # xs"
  by (simp add: since_def emit_def)

lemma update_denied:
  assumes "session w = Some c" and "0 < inflight w"
    and "\<not> truthy (get_prop (bodyJson b) ''success'')"
  shows "filter is_block (since w (step w (UpdateResponse None b))) =
           [Trigger (AvPlayerBloked JPlayer
              (js_or (bodyJson b) (JStr ''Has alcanzado la cantidad maxima de players activos.''))
              (JStr ''noauth''))]"
    and "Pause \<in> set (since w (step w (UpdateResponse None b)))"
    and "Dispose \<in> set (since w (step w (UpdateResponse None b)))"
    and "trace (step w (UpdateResponse None b)) = trace w @ since w (step w (UpdateResponse None b))"
    and "map_option failedRequest (session (step w (UpdateResponse None b))) = Some 0"
proof -
  let ?w1 = "w\<lparr>inflight := inflight w - 1,
     session := Some (c\<lparr>pendingRequest := False, failedRequest := 0\<rparr>)\<rparr>"
  let ?w2 = "emit (Log ''Player Auth error'') ?w1"
  let ?w3 = "blockPlayer JPlayer (JStr ''noauth'') (bodyJson b) ?w2"
  from assms have e: "step w (UpdateResponse None b) = ?w3"
    using wdf_callback_denied [of "w\<lparr>inflight := inflight w - 1\<rparr>" c "bodyJson b"]
    by (simp add: cb_error_def)
  from blockPlayer_adds(1) [of JPlayer "JStr ''noauth''" "bodyJson b" ?w2]
  have s: "since w ?w3 = Log ''Player Auth error'' # since ?w2 ?w3"
    by (intro since_emit_then) (simp add: emit_def)
  from s blockPlayer_adds(2) [of ?w2 JPlayer "JStr ''noauth''" "bodyJson b"]
  show "filter is_block (since w (step w (UpdateResponse None b))) =
           [Trigger (AvPlayerBloked JPlayer
              (js_or (bodyJson b) (JStr ''Has alcanzado la cantidad maxima de players activos.''))
              (JStr ''noauth''))]"
    unfolding e by (simp add: js_or_def)
  from s blockPlayer_adds(3) [of ?w2 JPlayer "JStr ''noauth''" "bodyJson b"]
  show "Pause \<in> set (since w (step w (UpdateResponse None b)))" unfolding e by simp
  from s blockPlayer_adds(4) [of ?w2 JPlayer "JStr ''noauth''" "bodyJson b"]
  show "Dispose \<in> set (since w (step w (UpdateResponse None b)))" unfolding e by simp
  from s blockPlayer_adds(1) [of JPlayer "JStr ''noauth''" "bodyJson b" ?w2]
  show "trace (step w (UpdateResponse None b)) = trace w @ since w (step w (UpdateResponse None b))"
    unfolding e by (simp add: emit_def)
  show "map_option failedRequest (session (step w (UpdateResponse None b))) = Some 0"
    unfolding e by (simp add: blockPlayer_keeps emit_def)
qed

lemma update_denied_live:
  assumes "session w = Some c" and "0 < inflight w"
    and "\<not> truthy (get_prop (bodyJson b) ''success'')"
    and "watchdog c = WdHandle h" and "h \<noteq> 0"
  shows "step w (UpdateResponse None b) = w\<lparr>paused := True, inflight := inflight w - 1,
      trace := trace w @
      [Log ''Player Auth error'', Log ''concurrenceview: stop player - '',
       Trigger (AvPlayerBloked JPlayer
         (js_or (bodyJson b) (JStr ''Has alcanzado la cantidad maxima de players activos.''))
         (JStr ''noauth'')),
       Pause, Dispose,
       Log ''concurrenceview: DISPOSE'', ClearInterval h,
       Request Release (disposeurl (wd_options c))
         (JObj [(''player'', cur_playerID c), (''position'', JNum (lasTime c)),
                (''token'', playerToken c), (''status'', JStr ''paused'')])
         (requestTimeoutInMillis (wd_options c))],
      session := Some (c\<lparr>watchdog := WdFalse, pendingRequest := False, failedRequest := 0\<rparr>)\<rparr>"
proof -
  let ?c = "c\<lparr>pendingRequest := False, failedRequest := 0\<rparr>"
  let ?w2 = "emit (Log ''Player Auth error'') (w\<lparr>inflight := inflight w - 1, session := Some ?c\<rparr>)"
  from assms have e: "step w (UpdateResponse None b) =
      blockPlayer JPlayer (JStr ''noauth'') (bodyJson b) ?w2"
    using wdf_callback_denied [of "w\<lparr>inflight := inflight w - 1\<rparr>" c "bodyJson b"]
    by (simp add: cb_error_def)
  have "session ?w2 = Some ?c" "watchdog ?c = WdHandle h"
    using assms by (simp_all add: emit_def)
  from blockPlayer_live [OF this assms(5)] show ?thesis
    unfolding e by (simp add: emit_def js_or_def)
qed

subsection \<open>Update requests are serialised\<close>

lemma serial_alt:
  "serial w = (inflight w \<le> 1 \<and> (validating w \<longrightarrow> session w = None) \<and>
      (case map_option pendingRequest (session w) of
         None \<Rightarrow> inflight w = 0
       | Some b \<Rightarrow> b = (inflight w = 1)))"
  by (simp add: serial_def split: option.splits)

lemma serial_emit: "serial (emit e w) = serial w"
  by (auto simp: serial_def emit_def split: option.splits)

lemma serial_cleanUp: "serial w \<Longrightarrow> serial (cleanUp w)"
  using cleanUp_keeps(3) [of w]
  by (cases "session w"; cases "session (cleanUp w)") (auto simp: serial_alt cleanUp_keeps)

lemma serial_wdf: "serial w \<Longrightarrow> serial (wdf w)"
  by (auto simp: serial_def wdf_def makeRequest_def emit_def Let_def split: option.splits)

lemma wdf_callback_keeps:
  "validating (wdf_callback error response w) = validating w"
  "inflight (wdf_callback error response w) = inflight w"
  "map_option pendingRequest (session (wdf_callback error response w))
     = map_option (\<lambda>c. False) (session w)"
proof -
  show "validating (wdf_callback error response w) = validating w"
    by (cases "session w")
       (auto simp: wdf_callback_def Let_def blockPlayer_keeps emit_def split: option.splits)
  show "inflight (wdf_callback error response w) = inflight w"
    by (cases "session w")
       (auto simp: wdf_callback_def Let_def blockPlayer_keeps emit_def split: option.splits)
  show "map_option pendingRequest (session (wdf_callback error response w))
     = map_option (\<lambda>c. False) (session w)"
  proof (cases "session w")
    case None
    then show ?thesis by (simp add: wdf_callback_def)
  next
    case (Some c0)
    let ?w = "w\<lparr>session := Some (c0\<lparr>pendingRequest := False\<rparr>)\<rparr>"
    let ?b = "blockPlayer JPlayer (JStr ''authapifail'') (JObj [(''msg'', error)])
                 (emit (Log ''concurrenceview: update api error'') ?w)"
    let ?w' = "w\<lparr>session := Some (c0\<lparr>pendingRequest := False, failedRequest := 0\<rparr>)\<rparr>"
    let ?b' = "blockPlayer JPlayer (JStr ''noauth'') response (emit (Log ''Player Auth error'') ?w')"
    have 1: "map_option pendingRequest (session ?b) = Some False"
      by (simp add: blockPlayer_keeps emit_def)
    have 2: "map_option pendingRequest (session ?b') = Some False"
      by (simp add: blockPlayer_keeps emit_def)
    from 1 obtain c1 where c1: "session ?b = Some c1" "pendingRequest c1 = False" by auto
    show ?thesis
    proof (cases "truthy error")
      case True
      with Some c1 show ?thesis by (simp add: wdf_callback_def Let_def del: of_nat_le_iff)
    next
      case False
      with Some 2 show ?thesis by (simp add: wdf_callback_def Let_def)
    qed
  qed
qed

lemma serial_wdf_callback:
  assumes "serial w" and "0 < inflight w"
  shows "serial (wdf_callback error response (w\<lparr>inflight := inflight w - 1\<rparr>))"
  using assms wdf_callback_keeps(3) [of error response "w\<lparr>inflight := inflight w - 1\<rparr>"]
  by (cases "session w") (auto simp: serial_alt wdf_callback_keeps)

lemma serial_validate:
  assumes "serial w" and "validating w"
  shows "serial (validatePlay_callback this error ok (w\<lparr>validating := False\<rparr>))"
proof -
  from assms have n: "session w = None" "inflight w = 0" by (auto simp: serial_def)
  have b: "\<And>e (w'::world). session w' = None \<Longrightarrow> inflight w' = 0 \<Longrightarrow> \<not> validating w' \<Longrightarrow>
      serial (blockPlayer (JStr ''cantplay'') e JUndefined w')"
  proof -
    fix e and w' :: world assume a: "session w' = None" "inflight w' = 0" "\<not> validating w'"
    from blockPlayer_keeps(3) [of "JStr ''cantplay''" e JUndefined w'] a
    have "session (blockPlayer (JStr ''cantplay'') e JUndefined w') = None" by simp
    with a show "serial (blockPlayer (JStr ''cantplay'') e JUndefined w')"
      by (simp add: serial_def blockPlayer_keeps)
  qed
  have m: "serial (makeWatchdog this ok (recoverStatus ok (w\<lparr>validating := False\<rparr>)))"
    using n by (simp add: serial_def makeWatchdog_def wdf_def makeRequest_def emit_def
        recoverStatus_def Let_def)
  then have "serial (emit (Trigger AvPlayerCanPlay)
      (makeWatchdog this ok (recoverStatus ok (w\<lparr>validating := False\<rparr>))))"
    by (simp add: serial_emit)
  with n b show ?thesis
    by (simp add: validatePlay_callback_def onValidated_def emit_def)
qed

lemma serial_step: "serial w \<Longrightarrow> serial (step w ev)"
proof (cases ev)
  case (ValidateResponse err b)
  assume "serial w"
  with ValidateResponse serial_validate show ?thesis by (simp split: option.splits)
next
  case Tick
  assume "serial w"
  with Tick serial_wdf show ?thesis by simp
next
  case (UpdateResponse err b)
  assume "serial w"
  with UpdateResponse serial_wdf_callback show ?thesis by simp
next
  case LoadedMetadata
  assume "serial w"
  with LoadedMetadata show ?thesis
    by (auto simp: serial_def on_loadedmetadata_def Let_def split: option.splits)
next
  case (TimeUpdate t)
  assume "serial w"
  with TimeUpdate show ?thesis
    by (auto simp: serial_def on_timeupdate_def emit_def Let_def split: option.splits)
next
  case DisposeEvent
  assume "serial w"
  with DisposeEvent serial_cleanUp show ?thesis by simp
next
  case BeforeUnload
  assume "serial w"
  with BeforeUnload serial_cleanUp show ?thesis by simp
next
  case PlayEvent
  assume "serial w"
  with PlayEvent show ?thesis by (simp add: serial_def split: option.splits)
next
  case PauseEvent
  assume "serial w"
  with PauseEvent show ?thesis by (simp add: serial_def split: option.splits)
qed

lemma serial_run: "serial w \<Longrightarrow> serial (run w evs)"
  unfolding run_def by (induction evs arbitrary: w) (simp_all add: serial_step)

lemma boot_serial: "serial (concurrenceLimiter u (fresh p h st r))"
proof (cases "validating (concurrenceLimiter u (fresh p h st r))")
  case True
  from boot_started(2,3) [OF True] show ?thesis by (simp add: serial_def)
next
  case False
  from boot_idle(1) [OF False] show ?thesis by (simp add: serial_def idle_def)
qed

text \<open>
  C5. After any sequence of events following initialisation, at most one update request
  awaits its callback. A tick that fires while one is outstanding issues no update
  request and leaves the one outstanding; a tick issues a request only when none is
  outstanding and the flag \<^verbatim>\<open>pendingRequest\<close> is false, which only the callback of the
  previous request sets.
\<close>

theorem one_update_in_flight:
  "inflight (run (concurrenceLimiter u (fresh p h st r)) evs) \<le> 1
   \<and> (0 < inflight (run (concurrenceLimiter u (fresh p h st r)) evs) \<longrightarrow>
        filter is_update (since (run (concurrenceLimiter u (fresh p h st r)) evs)
           (step (run (concurrenceLimiter u (fresh p h st r)) evs) Tick)) = []
        \<and> inflight (step (run (concurrenceLimiter u (fresh p h st r)) evs) Tick) = 1)
   \<and> (filter is_update (since (run (concurrenceLimiter u (fresh p h st r)) evs)
           (step (run (concurrenceLimiter u (fresh p h st r)) evs) Tick)) \<noteq> [] \<longrightarrow>
        inflight (run (concurrenceLimiter u (fresh p h st r)) evs) = 0
        \<and> map_option pendingRequest (session (run (concurrenceLimiter u (fresh p h st r)) evs))
            = Some False)"
proof -
  let ?w = "run (concurrenceLimiter u (fresh p h st r)) evs"
  have s: "serial ?w" by (rule serial_run [OF boot_serial])
  show ?thesis
  proof (cases "session ?w")
    case None
    with s show ?thesis by (simp add: serial_def wdf_def since_def)
  next
    case (Some c)
    with s show ?thesis
      by (cases "pendingRequest c")
         (auto simp: serial_def wdf_def makeRequest_def emit_def since_def Let_def)
  qed
qed

theorem one_update_in_flight_witness:
  "0 < inflight (run (concurrenceLimiter example_options (fresh False 7 None (1, 1)))
          [ValidateResponse None ok_body])
   \<and> filter is_update (since (run (concurrenceLimiter example_options (fresh False 7 None (1, 1)))
          [ValidateResponse None ok_body])
        (step (run (concurrenceLimiter example_options (fresh False 7 None (1, 1)))
          [ValidateResponse None ok_body]) Tick)) = []
   \<and> filter is_update (since (run (concurrenceLimiter example_options (fresh False 7 None (1, 1)))
          [ValidateResponse None ok_body, UpdateResponse None ok_body])
        (step (run (concurrenceLimiter example_options (fresh False 7 None (1, 1)))
          [ValidateResponse None ok_body, UpdateResponse None ok_body]) Tick)) \<noteq> []
   \<and> inflight (run (concurrenceLimiter example_options (fresh False 7 None (1, 1)))
          [ValidateResponse None ok_body, UpdateResponse None ok_body]) = 0"
proof -
  have a: "0 < inflight (run (concurrenceLimiter example_options (fresh False 7 None (1, 1)))
          [ValidateResponse None ok_body])"
    by (simp add: ok_body_def plugin_defs Let_def)
  have b: "filter is_update (since (run (concurrenceLimiter example_options (fresh False 7 None (1, 1)))
          [ValidateResponse None ok_body, UpdateResponse None ok_body])
        (step (run (concurrenceLimiter example_options (fresh False 7 None (1, 1)))
          [ValidateResponse None ok_body, UpdateResponse None ok_body]) Tick)) \<noteq> []"
    by (simp add: ok_body_def plugin_defs Let_def)
  from a b
    one_update_in_flight [of example_options False 7 None "(1, 1)" "[ValidateResponse None ok_body]"]
    one_update_in_flight [of example_options False 7 None "(1, 1)"
      "[ValidateResponse None ok_body, UpdateResponse None ok_body]"]
  show ?thesis by blast
qed

subsection \<open>The heartbeat\<close>

text \<open>
  C10. Every invocation of \<^verbatim>\<open>wdf\<close> (a tick runs exactly \<^verbatim>\<open>wdf\<close>) triggers exactly one
  \<^verbatim>\<open>avplayerupdate\<close> event, carrying the current \<^verbatim>\<open>playerID\<close> of the closure; it is the
  first effect of the invocation, so it precedes the test of \<^verbatim>\<open>pendingRequest\<close> and any
  request, and it is the only effect when a request is pending.
\<close>

theorem heartbeat_on_every_tick:
  assumes "session w = Some c"
  shows "step w Tick = wdf w
       \<and> trace (wdf w) = trace w @ since w (wdf w)
       \<and> filter is_heartbeat (since w (wdf w)) = [Trigger (AvPlayerUpdate (cur_playerID c))]
       \<and> take 1 (since w (wdf w)) = [Trigger (AvPlayerUpdate (cur_playerID c))]
       \<and> (pendingRequest c \<longrightarrow> since w (wdf w) = [Trigger (AvPlayerUpdate (cur_playerID c))])"
  using assms by (simp add: wdf_def makeRequest_def emit_def since_def Let_def)

theorem heartbeat_on_every_tick_witness:
  "session example_running \<noteq> None
   \<and> filter is_heartbeat (since example_running (step example_running Tick))
       = [Trigger (AvPlayerUpdate (JStr ''rdm-g''))]
   \<and> since example_running (step example_running Tick)
       = [Trigger (AvPlayerUpdate (JStr ''rdm-g''))]"
  using heartbeat_on_every_tick [OF example_running_session] example_running_session
  by simp

subsection \<open>Denied and unparsable update responses\<close>

lemma since_append: "trace w' = trace w @ xs \<Longrightarrow> since w w' = xs"
  by (simp add: since_def)

text \<open>
  C2. When the callback of an update request gets no transport error and a body that
  parses to a value whose \<^verbatim>\<open>success\<close> is falsy, it calls \<^verbatim>\<open>blockPlayer\<close> at once, whatever
  the value of \<^verbatim>\<open>failedRequest\<close>: the \<^verbatim>\<open>avplayerbloked\<close> event fires, the player is paused
  and disposed, and, when the interval is still running, it is cleared and the release
  request is sent.
\<close>

theorem update_denial_terminates:
  assumes "session w = Some c" and "0 < inflight w"
    and "\<not> truthy (get_prop v ''success'')"
  shows "trace (step w (UpdateResponse None (Parsed v)))
           = trace w @ since w (step w (UpdateResponse None (Parsed v)))
       \<and> filter is_block (since w (step w (UpdateResponse None (Parsed v)))) =
           [Trigger (AvPlayerBloked JPlayer
              (js_or v (JStr ''Has alcanzado la cantidad maxima de players activos.''))
              (JStr ''noauth''))]
       \<and> Pause \<in> set (since w (step w (UpdateResponse None (Parsed v))))
       \<and> Dispose \<in> set (since w (step w (UpdateResponse None (Parsed v))))
       \<and> (watchdog c = WdHandle h \<and> h \<noteq> 0 \<longrightarrow>
            released (step w (UpdateResponse None (Parsed v)))
            \<and> since w (step w (UpdateResponse None (Parsed v))) =
               [Log ''Player Auth error'', Log ''concurrenceview: stop player - '',
                Trigger (AvPlayerBloked JPlayer
                  (js_or v (JStr ''Has alcanzado la cantidad maxima de players activos.''))
                  (JStr ''noauth'')),
                Pause, Dispose, Log ''concurrenceview: DISPOSE'', ClearInterval h,
                Request Release (disposeurl (wd_options c))
                  (JObj [(''player'', cur_playerID c), (''position'', JNum (lasTime c)),
                         (''token'', playerToken c), (''status'', JStr ''paused'')])
                  (requestTimeoutInMillis (wd_options c))])"
proof -
  from assms(3) have f: "\<not> truthy (get_prop (bodyJson (Parsed v)) ''success'')"
    by (simp add: bodyJson_def)
  have b: "bodyJson (Parsed v) = v" by (simp add: bodyJson_def)
  note d = update_denied [OF assms(1,2) f]
  have "watchdog c = WdHandle h \<and> h \<noteq> 0 \<longrightarrow>
            released (step w (UpdateResponse None (Parsed v)))
            \<and> since w (step w (UpdateResponse None (Parsed v))) =
               [Log ''Player Auth error'', Log ''concurrenceview: stop player - '',
                Trigger (AvPlayerBloked JPlayer
                  (js_or v (JStr ''Has alcanzado la cantidad maxima de players activos.''))
                  (JStr ''noauth'')),
                Pause, Dispose, Log ''concurrenceview: DISPOSE'', ClearInterval h,
                Request Release (disposeurl (wd_options c))
                  (JObj [(''player'', cur_playerID c), (''position'', JNum (lasTime c)),
                         (''token'', playerToken c), (''status'', JStr ''paused'')])
                  (requestTimeoutInMillis (wd_options c))]"
  proof
    assume l: "watchdog c = WdHandle h \<and> h \<noteq> 0"
    then have l1: "watchdog c = WdHandle h" and l2: "h \<noteq> 0" by simp_all
    from update_denied_live [OF assms(1,2) f l1 l2] show
      "released (step w (UpdateResponse None (Parsed v)))
       \<and> since w (step w (UpdateResponse None (Parsed v))) =
               [Log ''Player Auth error'', Log ''concurrenceview: stop player - '',
                Trigger (AvPlayerBloked JPlayer
                  (js_or v (JStr ''Has alcanzado la cantidad maxima de players activos.''))
                  (JStr ''noauth'')),
                Pause, Dispose, Log ''concurrenceview: DISPOSE'', ClearInterval h,
                Request Release (disposeurl (wd_options c))
                  (JObj [(''player'', cur_playerID c), (''position'', JNum (lasTime c)),
                         (''token'', playerToken c), (''status'', JStr ''paused'')])
                  (requestTimeoutInMillis (wd_options c))]"
      by (simp add: released_def since_def b)
  qed
  with d(1-4) b show ?thesis by simp
qed

theorem update_denial_terminates_witness:
  "session example_running \<noteq> None \<and> 0 < inflight example_running
   \<and> \<not> truthy (get_prop (JObj [(''success'', JBool False)]) ''success'')
   \<and> filter is_block (since example_running
        (step example_running (UpdateResponse None (Parsed (JObj [(''success'', JBool False)]))))) =
        [Trigger (AvPlayerBloked JPlayer (JObj [(''success'', JBool False)]) (JStr ''noauth''))]
   \<and> released (step example_running
        (UpdateResponse None (Parsed (JObj [(''success'', JBool False)]))))
   \<and> ClearInterval 7 \<in> set (since example_running
        (step example_running (UpdateResponse None (Parsed (JObj [(''success'', JBool False)])))))"
proof -
  have a: "0 < inflight example_running" by (simp add: example_running_inflight)
  have b: "\<not> truthy (get_prop (JObj [(''success'', JBool False)]) ''success'')" by simp
  from update_denial_terminates [OF example_running_session a b, of 7] example_running_session a
  show ?thesis by (simp add: js_or_def)
qed

text \<open>
  C3, as amended. When the callback of an update request gets no transport error and a
  body that is empty or does not parse, the response is handled as a denial: the counter
  \<^verbatim>\<open>failedRequest\<close> is set to 0, not incremented, and \<^verbatim>\<open>blockPlayer\<close> is called at once,
  whatever the threshold \<^verbatim>\<open>maxUpdateFails\<close>.
\<close>

theorem unparsable_update_terminates:
  assumes "session w = Some c" and "0 < inflight w" and "b = EmptyBody \<or> b = Malformed"
  shows "filter is_block (since w (step w (UpdateResponse None b))) =
           [Trigger (AvPlayerBloked JPlayer
              (if b = EmptyBody
               then JObj [(''error'', JStr ''invalid body''), (''body'', JStr [])]
               else JStr ''Has alcanzado la cantidad maxima de players activos.'')
              (JStr ''noauth''))]
       \<and> Dispose \<in> set (since w (step w (UpdateResponse None b)))
       \<and> map_option failedRequest (session (step w (UpdateResponse None b))) = Some 0
       \<and> (watchdog c = WdHandle h \<and> h \<noteq> 0 \<longrightarrow>
            released (step w (UpdateResponse None b))
            \<and> ClearInterval h \<in> set (since w (step w (UpdateResponse None b))))"
proof -
  from assms(3) have f: "\<not> truthy (get_prop (bodyJson b) ''success'')"
    by (auto simp: bodyJson_def)
  note d = update_denied [OF assms(1,2) f]
  have "watchdog c = WdHandle h \<and> h \<noteq> 0 \<longrightarrow>
            released (step w (UpdateResponse None b))
            \<and> ClearInterval h \<in> set (since w (step w (UpdateResponse None b)))"
  proof
    assume l: "watchdog c = WdHandle h \<and> h \<noteq> 0"
    then have l1: "watchdog c = WdHandle h" and l2: "h \<noteq> 0" by simp_all
    from update_denied_live [OF assms(1,2) f l1 l2]
    show "released (step w (UpdateResponse None b))
            \<and> ClearInterval h \<in> set (since w (step w (UpdateResponse None b)))"
      by (simp add: released_def since_def)
  qed
  with d(1,3,5) assms(3) show ?thesis by (auto simp: bodyJson_def js_or_def)
qed

theorem unparsable_update_terminates_witness:
  "session example_running \<noteq> None \<and> 0 < inflight example_running
   \<and> filter is_block (since example_running (step example_running (UpdateResponse None Malformed)))
       = [Trigger (AvPlayerBloked JPlayer
            (JStr ''Has alcanzado la cantidad maxima de players activos.'') (JStr ''noauth''))]
   \<and> released (step example_running (UpdateResponse None Malformed))
   \<and> ClearInterval 7 \<in> set (since example_running
        (step example_running (UpdateResponse None Malformed)))"
proof -
  have a: "0 < inflight example_running" by (simp add: example_running_inflight)
  from unparsable_update_terminates [OF example_running_session a, of Malformed 7]
    example_running_session a
  show ?thesis by simp
qed

text \<open>
  C3, as stated, fails: with the default \<^verbatim>\<open>maxUpdateFails\<close> of 1 and no failure so far, the
  first update response whose body does not parse (or is empty) blocks the player, and
  the counter stays 0.
\<close>

theorem unparsable_update_counterexample:
  "maxUpdateFails (mergeOptions defaults example_options) = 1
   \<and> map_option failedRequest (session example_running) = Some 0
   \<and> list_ex is_block (since example_running
        (step example_running (UpdateResponse None Malformed)))
   \<and> map_option failedRequest (session (step example_running (UpdateResponse None Malformed)))
       = Some 0
   \<and> list_ex is_block (since example_running
        (step example_running (UpdateResponse None EmptyBody)))
   \<and> map_option failedRequest (session (step example_running (UpdateResponse None EmptyBody)))
       = Some 0"
  by (simp add: example_running_def ok_body_def plugin_defs Let_def)

subsection \<open>Tolerated failures of the update request\<close>

lemma failures_Cons: "failures ((m, b) # fs) = UpdateResponse (Some m) b # Tick # failures fs"
  by (simp add: failures_def)

lemma update_failed_tolerated:
  assumes "session w = Some c" and "0 < inflight w"
    and "int (failedRequest c) < maxUpdateFails (wd_options c)"
  shows "step w (UpdateResponse (Some m) b) =
     w\<lparr>inflight := inflight w - 1,
       session := Some (c\<lparr>pendingRequest := False, failedRequest := Suc (failedRequest c)\<rparr>)\<rparr>"
  using assms by (simp add: wdf_callback_def Let_def)

lemma update_failed_over:
  assumes "session w = Some c" and "0 < inflight w"
    and "maxUpdateFails (wd_options c) \<le> int (failedRequest c)"
    and "watchdog c = WdHandle h" and "h \<noteq> 0"
  shows "step w (UpdateResponse (Some m) b) = w\<lparr>paused := True, inflight := inflight w - 1,
      trace := trace w @
      [Log ''concurrenceview: update api error'', Log ''concurrenceview: stop player - '',
       Trigger (AvPlayerBloked JPlayer (JObj [(''msg'', cb_error (Some m))]) (JStr ''authapifail'')),
       Pause, Dispose, Log ''concurrenceview: DISPOSE'', ClearInterval h,
       Request Release (disposeurl (wd_options c))
         (JObj [(''player'', cur_playerID c), (''position'', JNum (lasTime c)),
                (''token'', playerToken c), (''status'', JStr ''paused'')])
         (requestTimeoutInMillis (wd_options c))],
      session := Some (c\<lparr>watchdog := WdFalse, pendingRequest := False,
                          failedRequest := Suc (failedRequest c)\<rparr>)\<rparr>"
proof -
  let ?c = "c\<lparr>pendingRequest := False\<rparr>"
  let ?w2 = "emit (Log ''concurrenceview: update api error'')
               (w\<lparr>inflight := inflight w - 1, session := Some ?c\<rparr>)"
  have "session ?w2 = Some ?c" "watchdog ?c = WdHandle h"
    using assms by (simp_all add: emit_def)
  note l = blockPlayer_live [OF this assms(5), of JPlayer "JStr ''authapifail''"
      "JObj [(''msg'', cb_error (Some m))]"]
  define B where "B = blockPlayer JPlayer (JStr ''authapifail'')
      (JObj [(''msg'', cb_error (Some m))]) ?w2"
  from assms(1,2,3) have "step w (UpdateResponse (Some m) b) =
      (case session B of None \<Rightarrow> B
       | Some c1 \<Rightarrow> B\<lparr>session := Some (c1\<lparr>failedRequest := Suc (failedRequest c1)\<rparr>)\<rparr>)"
    unfolding B_def by (simp add: wdf_callback_def Let_def del: of_nat_le_iff One_nat_def)
  also have "\<dots> = w\<lparr>paused := True, inflight := inflight w - 1,
      trace := trace w @
      [Log ''concurrenceview: update api error'', Log ''concurrenceview: stop player - '',
       Trigger (AvPlayerBloked JPlayer (JObj [(''msg'', cb_error (Some m))]) (JStr ''authapifail'')),
       Pause, Dispose, Log ''concurrenceview: DISPOSE'', ClearInterval h,
       Request Release (disposeurl (wd_options c))
         (JObj [(''player'', cur_playerID c), (''position'', JNum (lasTime c)),
                (''token'', playerToken c), (''status'', JStr ''paused'')])
         (requestTimeoutInMillis (wd_options c))],
      session := Some (c\<lparr>watchdog := WdFalse, pendingRequest := False,
                          failedRequest := Suc (failedRequest c)\<rparr>)\<rparr>"
    unfolding B_def l by (simp add: emit_def js_or_def)
  finally show ?thesis .
qed

lemma update_succeeded:
  assumes "session w = Some c" and "0 < inflight w" and "truthy (get_prop v ''success'')"
  shows "step w (UpdateResponse None (Parsed v)) =
     w\<lparr>inflight := inflight w - 1,
       session := Some (c\<lparr>pendingRequest := False, failedRequest := 0,
          cur_playerID := js_or (get_prop v ''player'') (cur_playerID c),
          playerToken := js_or (get_prop v ''token'') (playerToken c)\<rparr>)\<rparr>"
  using assms get_prop_truthy [of v "''success''"]
  by (simp add: wdf_callback_def Let_def cb_error_def bodyJson_def)

lemma fail_cycle:
  assumes "session w = Some c" and "0 < inflight w" and "pendingRequest c"
    and "int (failedRequest c) < maxUpdateFails (wd_options c)"
  shows "session (run w [UpdateResponse (Some m) b, Tick])
           = Some (c\<lparr>failedRequest := Suc (failedRequest c)\<rparr>)"
    and "inflight (run w [UpdateResponse (Some m) b, Tick]) = inflight w"
    and "trace (run w [UpdateResponse (Some m) b, Tick]) = trace w @
           [Trigger (AvPlayerUpdate (cur_playerID c)),
            Request Update (updateurl (wd_options c))
              (JObj [(''player'', cur_playerID c), (''token'', playerToken c),
                     (''position'', JNum (lasTime c)),
                     (''status'', JStr (if paused w then ''paused'' else ''playing''))])
              (requestTimeoutInMillis (wd_options c))]"
proof -
  have r: "run w [UpdateResponse (Some m) b, Tick] = wdf (step w (UpdateResponse (Some m) b))"
    by (simp add: run_def)
  have p: "c\<lparr>failedRequest := Suc (failedRequest c), pendingRequest := True\<rparr>
      = c\<lparr>failedRequest := Suc (failedRequest c)\<rparr>"
    using assms(3) by (cases c) simp
  show "session (run w [UpdateResponse (Some m) b, Tick])
           = Some (c\<lparr>failedRequest := Suc (failedRequest c)\<rparr>)"
    unfolding r update_failed_tolerated [OF assms(1,2,4)]
    by (simp add: wdf_def makeRequest_def emit_def Let_def p)
  show "inflight (run w [UpdateResponse (Some m) b, Tick]) = inflight w"
    unfolding r update_failed_tolerated [OF assms(1,2,4)] using assms(2)
    by (simp add: wdf_def makeRequest_def emit_def Let_def)
  show "trace (run w [UpdateResponse (Some m) b, Tick]) = trace w @
           [Trigger (AvPlayerUpdate (cur_playerID c)),
            Request Update (updateurl (wd_options c))
              (JObj [(''player'', cur_playerID c), (''token'', playerToken c),
                     (''position'', JNum (lasTime c)),
                     (''status'', JStr (if paused w then ''paused'' else ''playing''))])
              (requestTimeoutInMillis (wd_options c))]"
    unfolding r update_failed_tolerated [OF assms(1,2,4)]
    by (simp add: wdf_def makeRequest_def emit_def Let_def)
qed

lemma failures_tolerated:
  assumes "session w = Some c" and "0 < inflight w" and "pendingRequest c"
    and "int (failedRequest c + length fs) \<le> maxUpdateFails (wd_options c)"
  shows "\<exists>xs. session (run w (failures fs)) = Some (c\<lparr>failedRequest := failedRequest c + length fs\<rparr>)
           \<and> inflight (run w (failures fs)) = inflight w
           \<and> trace (run w (failures fs)) = trace w @ xs
           \<and> (\<forall>e \<in> set xs. is_heartbeat e \<or> is_update e)"
  using assms
proof (induction fs arbitrary: w c)
  case Nil
  then show ?case by (simp add: failures_def run_def)
next
  case (Cons f fs)
  obtain m b where f: "f = (m, b)" by (cases f)
  let ?w1 = "run w [UpdateResponse (Some m) b, Tick]"
  let ?c1 = "c\<lparr>failedRequest := Suc (failedRequest c)\<rparr>"
  from Cons.prems have lt: "int (failedRequest c) < maxUpdateFails (wd_options c)" by simp
  note cy = fail_cycle [OF Cons.prems(1,2,3) lt, of m b]
  have "\<exists>xs. session (run ?w1 (failures fs)) = Some (?c1\<lparr>failedRequest := failedRequest ?c1 + length fs\<rparr>)
           \<and> inflight (run ?w1 (failures fs)) = inflight ?w1
           \<and> trace (run ?w1 (failures fs)) = trace ?w1 @ xs
           \<and> (\<forall>e \<in> set xs. is_heartbeat e \<or> is_update e)"
    using cy(1,2) Cons.prems by (intro Cons.IH) simp_all
  then obtain xs where x:
    "session (run ?w1 (failures fs)) = Some (?c1\<lparr>failedRequest := failedRequest ?c1 + length fs\<rparr>)"
    "inflight (run ?w1 (failures fs)) = inflight ?w1"
    "trace (run ?w1 (failures fs)) = trace ?w1 @ xs"
    "\<forall>e \<in> set xs. is_heartbeat e \<or> is_update e"
    by blast
  have r: "run w (failures (f # fs)) = run ?w1 (failures fs)"
    by (simp add: f failures_Cons run_def)
  from x cy show ?case unfolding r by simp
qed

lemma tick_effect_kinds:
  assumes "\<forall>e \<in> set xs. is_heartbeat e \<or> is_update e"
  shows "filter is_block xs = []" and "ClearInterval h \<notin> set xs"
    and "filter is_release xs = []"
proof -
  have k: "\<And>e. is_heartbeat e \<or> is_update e \<Longrightarrow>
      \<not> is_block e \<and> e \<noteq> ClearInterval h \<and> \<not> is_release e"
    by (auto elim!: is_heartbeat.elims is_update.elims)
  from assms k show "filter is_block xs = []" by (auto simp: filter_empty_conv)
  from assms k show "ClearInterval h \<notin> set xs" by blast
  from assms k show "filter is_release xs = []" by (auto simp: filter_empty_conv)
qed

text \<open>
  C1. Let \<^verbatim>\<open>maxUpdateFails\<close> be \<open>N\<close>, the counter be 0, the interval be running and an update
  request be outstanding. After up to \<open>N\<close> consecutive transport failures, each followed by
  the next tick, nothing has been blocked, cleared or released, the interval still runs
  and the counter equals the number of failures. After exactly \<open>N\<close> of them one more
  transport failure calls \<^verbatim>\<open>blockPlayer\<close>: the \<^verbatim>\<open>avplayerbloked\<close> event fires, the interval
  is cleared and the release request is sent. A successful update instead sets the
  counter to 0 and has no other effect.
\<close>

theorem update_failure_tolerance:
  assumes "session w = Some c" and "watchdog c = WdHandle h" and "h \<noteq> 0"
    and "pendingRequest c" and "0 < inflight w" and "failedRequest c = 0"
    and "maxUpdateFails (wd_options c) = int N" and "length fs \<le> N"
  shows "filter is_block (since w (run w (failures fs))) = []
       \<and> ClearInterval h \<notin> set (since w (run w (failures fs)))
       \<and> filter is_release (since w (run w (failures fs))) = []
       \<and> map_option watchdog (session (run w (failures fs))) = Some (WdHandle h)
       \<and> map_option failedRequest (session (run w (failures fs))) = Some (length fs)
       \<and> (length fs = N \<longrightarrow>
            filter is_block (since (run w (failures fs))
                (step (run w (failures fs)) (UpdateResponse (Some m) b)))
              = [Trigger (AvPlayerBloked JPlayer (JObj [(''msg'', cb_error (Some m))])
                   (JStr ''authapifail''))]
            \<and> ClearInterval h \<in> set (since (run w (failures fs))
                (step (run w (failures fs)) (UpdateResponse (Some m) b)))
            \<and> list_ex is_release (since (run w (failures fs))
                (step (run w (failures fs)) (UpdateResponse (Some m) b)))
            \<and> released (step (run w (failures fs)) (UpdateResponse (Some m) b)))
       \<and> (truthy (get_prop v ''success'') \<longrightarrow>
            map_option failedRequest
                (session (step (run w (failures fs)) (UpdateResponse None (Parsed v)))) = Some 0
            \<and> since (run w (failures fs))
                (step (run w (failures fs)) (UpdateResponse None (Parsed v))) = []
            \<and> map_option watchdog
                (session (step (run w (failures fs)) (UpdateResponse None (Parsed v))))
                = Some (WdHandle h))"
proof -
  let ?w = "run w (failures fs)"
  let ?c = "c\<lparr>failedRequest := length fs\<rparr>"
  from assms(6,7,8) have le: "int (failedRequest c + length fs) \<le> maxUpdateFails (wd_options c)"
    by simp
  from failures_tolerated [OF assms(1,5,4) le] assms(6) obtain xs where
    x: "session ?w = Some ?c" "inflight ?w = inflight w" "trace ?w = trace w @ xs"
       "\<forall>e \<in> set xs. is_heartbeat e \<or> is_update e"
    by auto
  from x(3) have s: "since w ?w = xs" by (rule since_append)
  note k = tick_effect_kinds(1) [OF x(4)] tick_effect_kinds(2) [OF x(4), of h]
    tick_effect_kinds(3) [OF x(4)]
  from x(2) assms(5) have i: "0 < inflight ?w" by simp
  have a: "filter is_block (since w ?w) = [] \<and> ClearInterval h \<notin> set (since w ?w)
       \<and> filter is_release (since w ?w) = []
       \<and> map_option watchdog (session ?w) = Some (WdHandle h)
       \<and> map_option failedRequest (session ?w) = Some (length fs)"
    using s k x(1) assms(2) by simp
  have o: "length fs = N \<longrightarrow>
            filter is_block (since ?w (step ?w (UpdateResponse (Some m) b)))
              = [Trigger (AvPlayerBloked JPlayer (JObj [(''msg'', cb_error (Some m))])
                   (JStr ''authapifail''))]
            \<and> ClearInterval h \<in> set (since ?w (step ?w (UpdateResponse (Some m) b)))
            \<and> list_ex is_release (since ?w (step ?w (UpdateResponse (Some m) b)))
            \<and> released (step ?w (UpdateResponse (Some m) b))"
  proof
    assume "length fs = N"
    with assms(7) have "maxUpdateFails (wd_options ?c) \<le> int (failedRequest ?c)" by simp
    moreover from assms(2) have "watchdog ?c = WdHandle h" by simp
    ultimately show "filter is_block (since ?w (step ?w (UpdateResponse (Some m) b)))
              = [Trigger (AvPlayerBloked JPlayer (JObj [(''msg'', cb_error (Some m))])
                   (JStr ''authapifail''))]
            \<and> ClearInterval h \<in> set (since ?w (step ?w (UpdateResponse (Some m) b)))
            \<and> list_ex is_release (since ?w (step ?w (UpdateResponse (Some m) b)))
            \<and> released (step ?w (UpdateResponse (Some m) b))"
      using update_failed_over [OF x(1) i _ _ assms(3), of m b]
      by (simp add: since_def released_def)
  qed
  have g: "truthy (get_prop v ''success'') \<longrightarrow>
            map_option failedRequest (session (step ?w (UpdateResponse None (Parsed v)))) = Some 0
            \<and> since ?w (step ?w (UpdateResponse None (Parsed v))) = []
            \<and> map_option watchdog (session (step ?w (UpdateResponse None (Parsed v))))
                = Some (WdHandle h)"
  proof
    assume "truthy (get_prop v ''success'')"
    from update_succeeded [OF x(1) i this] assms(2)
    show "map_option failedRequest (session (step ?w (UpdateResponse None (Parsed v)))) = Some 0
            \<and> since ?w (step ?w (UpdateResponse None (Parsed v))) = []
            \<and> map_option watchdog (session (step ?w (UpdateResponse None (Parsed v))))
                = Some (WdHandle h)"
      by (simp add: since_def)
  qed
  from a o g show ?thesis by blast
qed

theorem update_failure_tolerance_witness:
  "session example_running \<noteq> None \<and> 0 < inflight example_running
   \<and> maxUpdateFails (mergeOptions defaults example_options) = int 1
   \<and> length [(''timeout'', EmptyBody)] \<le> (1::nat)
   \<and> filter is_block (since example_running
        (run example_running (failures [(''timeout'', EmptyBody)]))) = []
   \<and> map_option watchdog (session (run example_running (failures [(''timeout'', EmptyBody)])))
        = Some (WdHandle 7)
   \<and> map_option failedRequest (session (run example_running (failures [(''timeout'', EmptyBody)])))
        = Some 1
   \<and> filter is_block (since (run example_running (failures [(''timeout'', EmptyBody)]))
        (step (run example_running (failures [(''timeout'', EmptyBody)]))
           (UpdateResponse (Some ''timeout'') EmptyBody)))
        = [Trigger (AvPlayerBloked JPlayer (JObj [(''msg'', JStr ''timeout'')])
             (JStr ''authapifail''))]
   \<and> released (step (run example_running (failures [(''timeout'', EmptyBody)]))
           (UpdateResponse (Some ''timeout'') EmptyBody))
   \<and> map_option failedRequest (session
        (step (run example_running (failures [(''timeout'', EmptyBody)]))
           (UpdateResponse None ok_body))) = Some 0"
proof -
  have a: "0 < inflight example_running" by (simp add: example_running_inflight)
  have n: "maxUpdateFails (mergeOptions defaults example_options) = int 1"
    by (simp add: mergeOptions_def defaults_def example_options_def no_options_def)
  have l: "length [(''timeout'', EmptyBody)] \<le> (1::nat)" by simp
  have t: "truthy (get_prop (JObj [(''success'', JBool True)]) ''success'')" by simp
  from update_failure_tolerance [OF example_running_session _ _ _ a _ _ l,
      of 7 "''timeout''" EmptyBody "JObj [(''success'', JBool True)]"] t
  have "filter is_block (since example_running
        (run example_running (failures [(''timeout'', EmptyBody)]))) = []
   \<and> map_option watchdog (session (run example_running (failures [(''timeout'', EmptyBody)])))
        = Some (WdHandle 7)
   \<and> map_option failedRequest (session (run example_running (failures [(''timeout'', EmptyBody)])))
        = Some 1
   \<and> filter is_block (since (run example_running (failures [(''timeout'', EmptyBody)]))
        (step (run example_running (failures [(''timeout'', EmptyBody)]))
           (UpdateResponse (Some ''timeout'') EmptyBody)))
        = [Trigger (AvPlayerBloked JPlayer (JObj [(''msg'', cb_error (Some ''timeout''))])
             (JStr ''authapifail''))]
   \<and> released (step (run example_running (failures [(''timeout'', EmptyBody)]))
           (UpdateResponse (Some ''timeout'') EmptyBody))
   \<and> map_option failedRequest (session
        (step (run example_running (failures [(''timeout'', EmptyBody)]))
           (UpdateResponse None (Parsed (JObj [(''success'', JBool True)]))))) = Some 0"
    by simp
  with a n l example_running_session show ?thesis
    by (simp add: ok_body_def cb_error_def js_or_def del: step.simps)
qed

subsection \<open>Recovery of the position\<close>

text \<open>
  C8. The claim asks that a recovered position be applied to the playback position once the
  metadata is loaded. For a validate response with position 45 the code assigns 45 over the
  property \<^verbatim>\<open>currentTime\<close> of the player at once, before any \<^verbatim>\<open>loadedmetadata\<close>; when
  \<^verbatim>\<open>loadedmetadata\<close> fires, only the property \<^verbatim>\<open>currentTime\<close> of the plugin object is set,
  the position of the media stays where it was and the player is not touched. Later
  \<^verbatim>\<open>timeupdate\<close> events (past the first, which is discarded) throw in the handler, because
  \<^verbatim>\<open>player.currentTime\<close> is no longer a function.
\<close>

theorem recovered_position_never_applied:
  "currentTimeProp (run example_start [ValidateResponse None recovery_body]) = Some (JNum 45)
   \<and> playbackPosition (run example_start [ValidateResponse None recovery_body, LoadedMetadata]) = 0
   \<and> pluginCurrentTime (run example_start [ValidateResponse None recovery_body, LoadedMetadata])
       = Some (JNum 45)
   \<and> trace (run example_start [ValidateResponse None recovery_body, LoadedMetadata])
       = trace (run example_start [ValidateResponse None recovery_body])
   \<and> since (run example_start [ValidateResponse None recovery_body, LoadedMetadata, TimeUpdate 45])
        (run example_start [ValidateResponse None recovery_body, LoadedMetadata, TimeUpdate 45,
           TimeUpdate 46])
       = [Throw ''TypeError'']"
  by (simp add: recovery_body_def plugin_defs Let_def)

end
